theory Spec2Isabelle
  imports Complex_Main "HOL-Library.AList"
begin

section \<open>Storage: rows, tables and errors\<close>

text \<open>
  The platform keeps all of its state in a Postgres database (the migration
  \<^verbatim>\<open>20251115132526_create_learning_platform_schema.sql\<close>) and every handler of the
  React client talks to it through the Supabase client, as the signed-in user. A row is
  a record with the columns the constraints, the row level security policies and the
  handlers read or write; columns that are only displayed (titles, descriptions, prices,
  video URLs, durations) are left out. Identifiers and timestamps are the strings and
  instants the client sees; an instant is a natural number.
\<close>

type_synonym uuid = string
type_synonym timestamptz = nat

datatype role = Student | Instructor

record profile_row =
  p_id :: uuid
  p_role :: role

record course_row =
  c_id :: uuid
  c_instructor_id :: uuid
  c_is_published :: bool

record section_row =
  s_id :: uuid
  s_course_id :: uuid
  s_order_index :: int

record lesson_row =
  l_id :: uuid
  l_section_id :: uuid
  l_order_index :: int
  l_is_preview :: bool

record enrollment_row =
  e_id :: uuid
  e_student_id :: uuid
  e_course_id :: uuid
  e_enrolled_at :: timestamptz
  e_completed_at :: "timestamptz option"
  e_progress_percentage :: int

record progress_row =
  lp_id :: uuid
  lp_enrollment_id :: uuid
  lp_lesson_id :: uuid
  lp_watched_seconds :: int
  lp_is_completed :: bool
  lp_last_watched_at :: timestamptz

record certificate_row =
  ct_id :: uuid
  ct_enrollment_id :: uuid
  ct_certificate_url :: "string option"
  ct_issued_at :: timestamptz

record db =
  profiles :: "profile_row list"
  courses :: "course_row list"
  course_sections :: "section_row list"
  lessons :: "lesson_row list"
  enrollments :: "enrollment_row list"
  lesson_progress :: "progress_row list"
  certificates :: "certificate_row list"

text \<open>
  What a statement can fail with: the Postgres errors with SQLSTATE 42501, 23505, 23503,
  23514, 22P02 and 22003. The client receives them in the \<^verbatim>\<open>error\<close> field of the
  response and every handler throws that field into its own \<^verbatim>\<open>catch\<close>.
\<close>

datatype pg_error =
    RlsViolation
  | UniqueViolation
  | ForeignKeyViolation
  | CheckViolation
  | InvalidTextRepresentation
  | NumericValueOutOfRange

text \<open>
  A \<^verbatim>\<open>uuid\<close> column only takes text that spells a UUID. The model recognises the
  canonical spelling Postgres prints (8-4-4-4-12 lower-case hexadecimal digits), which
  is the spelling of every identifier the client reads back from a row.
\<close>

definition hex_digit :: "char \<Rightarrow> bool" where
  "hex_digit ch = (ch \<in> set ''0123456789abcdef'')"

fun uuid_groups :: "nat list \<Rightarrow> string \<Rightarrow> bool" where
  "uuid_groups [] s = False"
| "uuid_groups [n] s = (length s = n \<and> list_all hex_digit s)"
| "uuid_groups (n # m # ns) s =
     (n < length s \<and> list_all hex_digit (take n s) \<and> s ! n = CHR ''-''
      \<and> uuid_groups (m # ns) (drop (Suc n) s))"

definition uuid_ok :: "string \<Rightarrow> bool" where
  "uuid_ok s = uuid_groups [8, 4, 4, 4, 12] s"

text \<open>An \<^verbatim>\<open>integer\<close> column holds a signed number of 32 bits; anything else is out of range.\<close>

definition int4_ok :: "int \<Rightarrow> bool" where
  "int4_ok n = (- (2 ^ 31) \<le> n \<and> n < 2 ^ 31)"

section \<open>Enrolling\<close>

text \<open>
  Policy \<^verbatim>\<open>"Students can create enrollments"\<close>: \<^verbatim>\<open>WITH CHECK (student_id = auth.uid())\<close>.
  The actor is \<^verbatim>\<open>auth.uid()\<close>: the signed-in user's id, or nothing for a request without a
  session. Every policy of the migration is granted \<^verbatim>\<open>TO authenticated\<close>, so a request
  without a session passes none of them.
\<close>

definition enrollments_insert_check :: "uuid option \<Rightarrow> enrollment_row \<Rightarrow> bool" where
  "enrollments_insert_check actor e = (actor = Some (e_student_id e))"

text \<open>
  \<^verbatim>\<open>insert({student_id, course_id})\<close> into \<^verbatim>\<open>enrollments\<close>. The other columns take their
  defaults: \<^verbatim>\<open>gen_random_uuid()\<close> (the argument \<open>new_id\<close>), \<^verbatim>\<open>now()\<close>, a null
  \<^verbatim>\<open>completed_at\<close> and \<^verbatim>\<open>progress_percentage\<close> 0. Postgres checks the policy, then the
  \<^verbatim>\<open>CHECK\<close> constraint, then the primary key and \<^verbatim>\<open>UNIQUE(student_id, course_id)\<close>, and
  the foreign keys last. The inserted row is returned (\<^verbatim>\<open>.select().single()\<close>); a row
  that passed the insert policy is the actor's own and so passes the select policy.
\<close>

definition insert_enrollment ::
  "db \<Rightarrow> uuid option \<Rightarrow> uuid \<Rightarrow> timestamptz \<Rightarrow> uuid \<Rightarrow> uuid \<Rightarrow> pg_error + (db \<times> enrollment_row)" where
  "insert_enrollment d actor new_id now student course =
     (if \<not> (uuid_ok student \<and> uuid_ok course) then Inl InvalidTextRepresentation
      else
        let row = \<lparr>e_id = new_id, e_student_id = student, e_course_id = course,
                   e_enrolled_at = now, e_completed_at = None, e_progress_percentage = 0\<rparr>
        in if \<not> enrollments_insert_check actor row then Inl RlsViolation
           else if \<not> (0 \<le> e_progress_percentage row \<and> e_progress_percentage row \<le> 100)
             then Inl CheckViolation
           else if list_ex (\<lambda>e. e_id e = new_id) (enrollments d)
                 \<or> list_ex (\<lambda>e. e_student_id e = student \<and> e_course_id e = course) (enrollments d)
             then Inl UniqueViolation
           else if \<not> (list_ex (\<lambda>p. p_id p = student) (profiles d)
                      \<and> list_ex (\<lambda>c. c_id c = course) (courses d))
             then Inl ForeignKeyViolation
           else Inr (d\<lparr>enrollments := enrollments d @ [row]\<rparr>, row))"

text \<open>
  \<^verbatim>\<open>handleEnroll\<close> of \<^verbatim>\<open>CourseDetail\<close>. \<open>user\<close> is the signed-in user of the auth context
  (the session the request is sent with), \<open>course\<close> the course the page loaded. The
  outcome is what the handler does next: nothing, \<^verbatim>\<open>setEnrollment(data); onEnroll(course.id)\<close>,
  or \<^verbatim>\<open>console.error\<close> in the \<^verbatim>\<open>catch\<close>.
\<close>

datatype enroll_outcome = NotAttempted | Enrolled enrollment_row | EnrollFailed pg_error

definition handleEnroll ::
  "db \<Rightarrow> uuid option \<Rightarrow> course_row option \<Rightarrow> uuid \<Rightarrow> timestamptz \<Rightarrow> db \<times> enroll_outcome" where
  "handleEnroll d user course new_id now =
     (case (user, course) of
        (Some u, Some c) \<Rightarrow>
          (case insert_enrollment d (Some u) new_id now u (c_id c) of
             Inl err \<Rightarrow> (d, EnrollFailed err)
           | Inr (d', row) \<Rightarrow> (d', Enrolled row))
      | _ \<Rightarrow> (d, NotAttempted))"

section \<open>Row level security: what an actor can read\<close>

text \<open>
  Every table has row level security enabled, so a statement only sees and touches the
  rows some policy for its command lets through; the policies of one command are
  alternatives (all of them are permissive), and a command for which a table has no
  policy gets no row. A table named inside a policy is read under its own policies
  too: the policy is evaluated as part of the actor's statement.

  \<^verbatim>\<open>"Anyone can view published courses"\<close>:
  \<^verbatim>\<open>USING (is_published = true OR instructor_id = auth.uid())\<close>.
\<close>

definition courses_select :: "uuid option \<Rightarrow> course_row \<Rightarrow> bool" where
  "courses_select actor c =
     (case actor of None \<Rightarrow> False
      | Some u \<Rightarrow> c_is_published c \<or> c_instructor_id c = u)"

definition visible_courses :: "db \<Rightarrow> uuid option \<Rightarrow> course_row list" where
  "visible_courses d actor = filter (courses_select actor) (courses d)"

text \<open>
  \<^verbatim>\<open>"Students can view own enrollments"\<close>: \<^verbatim>\<open>USING (student_id = auth.uid())\<close>, and
  \<^verbatim>\<open>"Instructors can view course enrollments"\<close>: \<^verbatim>\<open>USING (EXISTS (SELECT 1 FROM courses
  WHERE courses.id = enrollments.course_id AND courses.instructor_id = auth.uid()))\<close>.
\<close>

definition enrollments_select :: "db \<Rightarrow> uuid option \<Rightarrow> enrollment_row \<Rightarrow> bool" where
  "enrollments_select d actor e =
     (case actor of None \<Rightarrow> False
      | Some u \<Rightarrow>
          e_student_id e = u
          \<or> list_ex (\<lambda>c. c_id c = e_course_id e \<and> c_instructor_id c = u) (visible_courses d actor))"

definition visible_enrollments :: "db \<Rightarrow> uuid option \<Rightarrow> enrollment_row list" where
  "visible_enrollments d actor = filter (enrollments_select d actor) (enrollments d)"

text \<open>
  \<^verbatim>\<open>"Users can view sections of accessible courses"\<close>: \<^verbatim>\<open>USING (EXISTS (SELECT 1 FROM
  courses WHERE courses.id = course_sections.course_id AND (courses.is_published = true
  OR courses.instructor_id = auth.uid())))\<close>, and \<^verbatim>\<open>"Instructors can manage own course
  sections"\<close>, \<^verbatim>\<open>FOR ALL\<close> and so for reading as well: the same with
  \<^verbatim>\<open>courses.instructor_id = auth.uid()\<close> alone.
\<close>

definition sections_select :: "db \<Rightarrow> uuid option \<Rightarrow> section_row \<Rightarrow> bool" where
  "sections_select d actor s =
     (case actor of None \<Rightarrow> False
      | Some u \<Rightarrow>
          list_ex (\<lambda>c. c_id c = s_course_id s \<and> (c_is_published c \<or> c_instructor_id c = u))
            (visible_courses d actor)
          \<or> list_ex (\<lambda>c. c_id c = s_course_id s \<and> c_instructor_id c = u)
               (visible_courses d actor))"

definition visible_sections :: "db \<Rightarrow> uuid option \<Rightarrow> section_row list" where
  "visible_sections d actor = filter (sections_select d actor) (course_sections d)"

text \<open>
  \<^verbatim>\<open>course_sections cs JOIN courses c ON c.id = cs.course_id\<close>, as the two lessons policies
  read it.
\<close>

definition sections_join_courses :: "db \<Rightarrow> uuid option \<Rightarrow> (section_row \<times> course_row) list" where
  "sections_join_courses d actor =
     concat (map (\<lambda>cs. map (\<lambda>c. (cs, c))
                          (filter (\<lambda>c. c_id c = s_course_id cs) (visible_courses d actor)))
                 (visible_sections d actor))"

text \<open>
  \<^verbatim>\<open>"Users can view lessons of accessible courses"\<close>: \<^verbatim>\<open>USING (EXISTS (SELECT 1 FROM
  course_sections cs JOIN courses c ON c.id = cs.course_id WHERE cs.id = lessons.section_id
  AND (c.is_published = true OR c.instructor_id = auth.uid() OR EXISTS (SELECT 1 FROM
  enrollments e WHERE e.course_id = c.id AND e.student_id = auth.uid()))))\<close>, and
  \<^verbatim>\<open>"Instructors can manage own course lessons"\<close>, \<^verbatim>\<open>FOR ALL\<close>: the same join with
  \<^verbatim>\<open>c.instructor_id = auth.uid()\<close> alone. Neither reads \<^verbatim>\<open>lessons.is_preview\<close>.
\<close>

definition lessons_select :: "db \<Rightarrow> uuid option \<Rightarrow> lesson_row \<Rightarrow> bool" where
  "lessons_select d actor l =
     (case actor of None \<Rightarrow> False
      | Some u \<Rightarrow>
          list_ex (\<lambda>(cs, c). s_id cs = l_section_id l
                     \<and> (c_is_published c \<or> c_instructor_id c = u
                        \<or> list_ex (\<lambda>e. e_course_id e = c_id c \<and> e_student_id e = u)
                             (visible_enrollments d actor)))
            (sections_join_courses d actor)
          \<or> list_ex (\<lambda>(cs, c). s_id cs = l_section_id l \<and> c_instructor_id c = u)
               (sections_join_courses d actor))"

definition visible_lessons :: "db \<Rightarrow> uuid option \<Rightarrow> lesson_row list" where
  "visible_lessons d actor = filter (lessons_select d actor) (lessons d)"

text \<open>
  Reading one lesson by its id (\<^verbatim>\<open>from('lessons').select('*').eq('id', lessonId)\<close>): the
  row, when the actor may see it. A row the policies hide is simply not in the answer.
\<close>

definition select_lesson :: "db \<Rightarrow> uuid option \<Rightarrow> uuid \<Rightarrow> pg_error + lesson_row list" where
  "select_lesson d actor lessonId =
     (if \<not> uuid_ok lessonId then Inl InvalidTextRepresentation
      else Inr (filter (\<lambda>l. l_id l = lessonId) (visible_lessons d actor)))"

text \<open>
  \<^verbatim>\<open>"Students can view own progress"\<close> and \<^verbatim>\<open>"Students can manage own progress"\<close>
  (\<^verbatim>\<open>FOR ALL\<close>, with no \<^verbatim>\<open>WITH CHECK\<close>, so the same expression checks new rows): both are
  \<^verbatim>\<open>USING (EXISTS (SELECT 1 FROM enrollments WHERE enrollments.id =
  lesson_progress.enrollment_id AND enrollments.student_id = auth.uid()))\<close>.
\<close>

definition progress_policy :: "db \<Rightarrow> uuid option \<Rightarrow> progress_row \<Rightarrow> bool" where
  "progress_policy d actor p =
     (case actor of None \<Rightarrow> False
      | Some u \<Rightarrow>
          list_ex (\<lambda>e. e_id e = lp_enrollment_id p \<and> e_student_id e = u)
            (visible_enrollments d actor))"

definition visible_progress :: "db \<Rightarrow> uuid option \<Rightarrow> progress_row list" where
  "visible_progress d actor = filter (progress_policy d actor) (lesson_progress d)"

text \<open>
  \<^verbatim>\<open>"Students can view own certificates"\<close> (\<^verbatim>\<open>FOR SELECT\<close>) and \<^verbatim>\<open>"System can create
  certificates"\<close> (\<^verbatim>\<open>FOR INSERT\<close>) share one expression: \<^verbatim>\<open>EXISTS (SELECT 1 FROM enrollments
  WHERE enrollments.id = certificates.enrollment_id AND enrollments.student_id =
  auth.uid())\<close>. The migration declares no \<^verbatim>\<open>UPDATE\<close> and no \<^verbatim>\<open>DELETE\<close> policy for
  \<^verbatim>\<open>certificates\<close>, so no row of it can be updated or deleted through the client.
\<close>

definition certificates_owner_policy :: "db \<Rightarrow> uuid option \<Rightarrow> certificate_row \<Rightarrow> bool" where
  "certificates_owner_policy d actor ct =
     (case actor of None \<Rightarrow> False
      | Some u \<Rightarrow>
          list_ex (\<lambda>e. e_id e = ct_enrollment_id ct \<and> e_student_id e = u)
            (visible_enrollments d actor))"

definition certificates_update_policy :: "db \<Rightarrow> uuid option \<Rightarrow> certificate_row \<Rightarrow> bool" where
  "certificates_update_policy d actor ct = False"

definition visible_certificates :: "db \<Rightarrow> uuid option \<Rightarrow> certificate_row list" where
  "visible_certificates d actor = filter (certificates_owner_policy d actor) (certificates d)"

section \<open>The course player\<close>

text \<open>
  \<^verbatim>\<open>CoursePlayer({ courseId, enrollmentId })\<close> holds what it loaded in React state. A
  \<^verbatim>\<open>Section\<close> is a section row with its lessons embedded; \<^verbatim>\<open>progress\<close> is an object keyed
  by lesson id, an association list here (a key is written in place or appended, as a
  property of a JavaScript object is).
\<close>

record player_section =
  sec_id :: uuid
  sec_course_id :: uuid
  sec_order_index :: int
  sec_lessons :: "lesson_row list"

record player =
  sections :: "player_section list"
  currentLesson :: "lesson_row option"
  progress :: "(uuid \<times> progress_row) list"
  expandedSections :: "uuid list"
  loading :: bool

definition initial_player :: player where
  "initial_player =
     \<lparr>sections = [], currentLesson = None, progress = [], expandedSections = [], loading = True\<rparr>"

text \<open>
  \<^verbatim>\<open>from('course_sections').select('*, lessons (*)').eq('course_id', courseId)
  .order('order_index', { ascending: true })\<close>: the sections of the course the actor may
  see, each with the lessons under it the actor may see. \<^verbatim>\<open>course_id\<close> is a \<^verbatim>\<open>uuid\<close>
  column, so a \<open>courseId\<close> that is not a UUID fails the statement.
\<close>

definition select_sections :: "db \<Rightarrow> uuid option \<Rightarrow> string \<Rightarrow> pg_error + player_section list" where
  "select_sections d actor courseId =
     (if \<not> uuid_ok courseId then Inl InvalidTextRepresentation
      else Inr (map (\<lambda>s. \<lparr>sec_id = s_id s, sec_course_id = s_course_id s,
                           sec_order_index = s_order_index s,
                           sec_lessons = filter (\<lambda>l. l_section_id l = s_id s)
                                           (visible_lessons d actor)\<rparr>)
                  (sort_key s_order_index
                     (filter (\<lambda>s. s_course_id s = courseId) (visible_sections d actor)))))"

text \<open>
  \<^verbatim>\<open>loadCourseContent\<close>: on an error the \<^verbatim>\<open>catch\<close> logs it and the state keeps the sections
  it had; \<^verbatim>\<open>finally\<close> clears \<^verbatim>\<open>loading\<close>.
\<close>

definition loadCourseContent :: "player \<Rightarrow> db \<Rightarrow> uuid option \<Rightarrow> string \<Rightarrow> player" where
  "loadCourseContent st d actor courseId =
     (case select_sections d actor courseId of
        Inl err \<Rightarrow> st\<lparr>loading := False\<rparr>
      | Inr sectionsData \<Rightarrow>
          let sortedSections =
                map (\<lambda>section. section\<lparr>sec_lessons := sort_key l_order_index (sec_lessons section)\<rparr>)
                  sectionsData;
              st1 = st\<lparr>sections := sortedSections\<rparr>;
              st2 = (case sortedSections of
                       first # _ \<Rightarrow>
                         (case sec_lessons first of
                            lesson # _ \<Rightarrow>
                              st1\<lparr>currentLesson := Some lesson, expandedSections := [sec_id first]\<rparr>
                          | [] \<Rightarrow> st1)
                     | [] \<Rightarrow> st1)
          in st2\<lparr>loading := False\<rparr>)"

text \<open>
  \<^verbatim>\<open>from('lesson_progress').select('*').eq('enrollment_id', enrollmentId)\<close> and
  \<^verbatim>\<open>loadProgress\<close>, which files the rows under their lesson ids.
\<close>

definition select_progress :: "db \<Rightarrow> uuid option \<Rightarrow> string \<Rightarrow> pg_error + progress_row list" where
  "select_progress d actor enrollmentId =
     (if \<not> uuid_ok enrollmentId then Inl InvalidTextRepresentation
      else Inr (filter (\<lambda>p. lp_enrollment_id p = enrollmentId) (visible_progress d actor)))"

definition loadProgress :: "player \<Rightarrow> db \<Rightarrow> uuid option \<Rightarrow> string \<Rightarrow> player" where
  "loadProgress st d actor enrollmentId =
     (case select_progress d actor enrollmentId of
        Inl err \<Rightarrow> st
      | Inr data \<Rightarrow>
          st\<lparr>progress := fold (\<lambda>p progressMap. AList.update (lp_lesson_id p) p progressMap) data []\<rparr>)"

text \<open>The effect that runs when the player mounts: both loads, from the initial state.\<close>

definition mount_player :: "db \<Rightarrow> uuid option \<Rightarrow> string \<Rightarrow> string \<Rightarrow> player" where
  "mount_player d actor courseId enrollmentId =
     loadProgress (loadCourseContent initial_player d actor courseId) d actor enrollmentId"


section \<open>Recording progress\<close>

text \<open>
  \<^verbatim>\<open>from('lesson_progress').upsert({enrollment_id, lesson_id, watched_seconds, is_completed,
  last_watched_at}, { onConflict: 'enrollment_id,lesson_id' }).select().single()\<close>, that is
  \<^verbatim>\<open>INSERT ... ON CONFLICT (enrollment_id, lesson_id) DO UPDATE SET\<close> every column sent.
  The proposed row is checked against the policy first; a row with the same
  (enrollment, lesson) is then overwritten with the values sent, keeping its id; otherwise
  the row is inserted, under the primary key and the two foreign keys. Foreign keys are
  checked on the tables themselves, whatever the actor may see. \<^verbatim>\<open>watched_seconds\<close> is an
  \<^verbatim>\<open>integer\<close> column.
\<close>

definition upsert_progress ::
  "db \<Rightarrow> uuid option \<Rightarrow> uuid \<Rightarrow> timestamptz \<Rightarrow> string \<Rightarrow> string \<Rightarrow> int \<Rightarrow> bool
     \<Rightarrow> pg_error + (db \<times> progress_row)" where
  "upsert_progress d actor new_id now enrollmentId lessonId watchedSeconds isCompleted =
     (if \<not> (uuid_ok enrollmentId \<and> uuid_ok lessonId) then Inl InvalidTextRepresentation
      else if \<not> int4_ok watchedSeconds then Inl NumericValueOutOfRange
      else
        let proposed = \<lparr>lp_id = new_id, lp_enrollment_id = enrollmentId, lp_lesson_id = lessonId,
                        lp_watched_seconds = watchedSeconds, lp_is_completed = isCompleted,
                        lp_last_watched_at = now\<rparr>;
            same_key = (\<lambda>p. lp_enrollment_id p = enrollmentId \<and> lp_lesson_id p = lessonId)
        in if \<not> progress_policy d actor proposed then Inl RlsViolation
           else
             (case find same_key (lesson_progress d) of
                Some existing \<Rightarrow>
                  let updated = existing\<lparr>lp_watched_seconds := watchedSeconds,
                                         lp_is_completed := isCompleted,
                                         lp_last_watched_at := now\<rparr>
                  in if \<not> (progress_policy d actor existing \<and> progress_policy d actor updated)
                     then Inl RlsViolation
                     else Inr (d\<lparr>lesson_progress :=
                                   map (\<lambda>p. if same_key p then updated else p) (lesson_progress d)\<rparr>,
                               updated)
              | None \<Rightarrow>
                  if list_ex (\<lambda>p. lp_id p = new_id) (lesson_progress d) then Inl UniqueViolation
                  else if \<not> (list_ex (\<lambda>e. e_id e = enrollmentId) (enrollments d)
                             \<and> list_ex (\<lambda>l. l_id l = lessonId) (lessons d))
                    then Inl ForeignKeyViolation
                  else Inr (d\<lparr>lesson_progress := lesson_progress d @ [proposed]\<rparr>, proposed)))"

text \<open>
  \<^verbatim>\<open>"Students can update own enrollments"\<close>: \<^verbatim>\<open>USING (student_id = auth.uid()) WITH CHECK
  (student_id = auth.uid())\<close>. It names no column: whoever passes it may write any column
  of the row.
\<close>

definition enrollments_update_policy :: "uuid option \<Rightarrow> enrollment_row \<Rightarrow> bool" where
  "enrollments_update_policy actor e = (actor = Some (e_student_id e))"

text \<open>
  \<^verbatim>\<open>from('enrollments').update({progress_percentage, completed_at}).eq('id', enrollmentId)\<close>.
  The rows with that id which the actor may see and update get the two values; a row
  the policies hide is skipped without an error. The \<^verbatim>\<open>CHECK (progress_percentage >= 0 AND
  progress_percentage <= 100)\<close> constraint fails the statement when a row would break it.
\<close>

definition update_enrollment ::
  "db \<Rightarrow> uuid option \<Rightarrow> string \<Rightarrow> int \<Rightarrow> timestamptz option \<Rightarrow> pg_error + db" where
  "update_enrollment d actor enrollmentId percentage completedAt =
     (if \<not> uuid_ok enrollmentId then Inl InvalidTextRepresentation
      else if \<not> int4_ok percentage then Inl NumericValueOutOfRange
      else
        let target = (\<lambda>e. e_id e = enrollmentId \<and> enrollments_select d actor e
                           \<and> enrollments_update_policy actor e);
            written = (\<lambda>e. e\<lparr>e_progress_percentage := percentage, e_completed_at := completedAt\<rparr>)
        in if list_ex (\<lambda>e. target e \<and> \<not> enrollments_update_policy actor (written e)) (enrollments d)
             then Inl RlsViolation
           else if list_ex target (enrollments d) \<and> \<not> (0 \<le> percentage \<and> percentage \<le> 100)
             then Inl CheckViolation
           else Inr (d\<lparr>enrollments :=
                         map (\<lambda>e. if target e then written e else e) (enrollments d)\<rparr>))"

subsection \<open>The percentage, in JavaScript numbers\<close>

text \<open>
  \<^verbatim>\<open>Math.round((completedLessons / totalLessons) * 100)\<close> is computed in IEEE 754 double
  precision: the quotient is rounded to the nearest double (ties to the even significand),
  the product with 100 is rounded again, and \<^verbatim>\<open>Math.round\<close> takes the result to the nearest
  integer, a half going up. A double that is not negative is a pair \<open>(m, e)\<close> standing
  for \<open>m * 2 ^ e\<close>, with \<open>m\<close> of 53 bits unless it is zero. Counts of lessons are far
  below \<open>2 ^ 53\<close> and the quotients far above the subnormal range, so no other case of the
  format arises.
\<close>

fun bitlen :: "nat \<Rightarrow> nat" where
  "bitlen n = (if n = 0 then 0 else Suc (bitlen (n div 2)))"

declare bitlen.simps [simp del]

definition round_half_even :: "nat \<Rightarrow> nat \<Rightarrow> nat" where
  "round_half_even n d =
     (let q = n div d; r = n mod d
      in if 2 * r < d then q else if d < 2 * r then q + 1 else if even q then q else q + 1)"

text \<open>The double nearest to \<open>n / d\<close>, for positive \<open>n\<close> and \<open>d\<close>.\<close>

definition to_double :: "nat \<Rightarrow> nat \<Rightarrow> nat \<times> int" where
  "to_double n d =
     (let k = int (bitlen n) - int (bitlen d);
          lg = (if (if 0 \<le> k then d * 2 ^ nat k \<le> n else d \<le> n * 2 ^ nat (- k)) then k else k - 1);
          e = lg - 52
      in (if e \<le> 0 then round_half_even (n * 2 ^ nat (- e)) d
          else round_half_even n (d * 2 ^ nat e), e))"

definition js_divide :: "nat \<Rightarrow> nat \<Rightarrow> nat \<times> int" where
  "js_divide a b = (if a = 0 then (0, 0) else to_double a b)"

definition js_times :: "nat \<times> int \<Rightarrow> nat \<Rightarrow> nat \<times> int" where
  "js_times x n =
     (case x of (m, e) \<Rightarrow>
        if m = 0 \<or> n = 0 then (0, 0)
        else if 0 \<le> e then to_double (m * n * 2 ^ nat e) 1
        else to_double (m * n) (2 ^ nat (- e)))"

definition Math_round :: "nat \<times> int \<Rightarrow> nat" where
  "Math_round x =
     (case x of (m, e) \<Rightarrow>
        if 0 \<le> e then m * 2 ^ nat e else (2 * m + 2 ^ nat (- e)) div 2 ^ nat (1 - e))"

subsection \<open>The handlers\<close>

text \<open>
  \<^verbatim>\<open>updateEnrollmentProgress\<close> reads \<^verbatim>\<open>sections\<close> and \<^verbatim>\<open>progress\<close> of the player's state,
  not the database, and writes the percentage and \<^verbatim>\<open>completed_at\<close> (the time of the call
  when the percentage is 100, null otherwise) into the enrollment. An error of the
  update is logged and nothing else happens.
\<close>

definition totalLessons :: "player \<Rightarrow> nat" where
  "totalLessons st = foldl (\<lambda>sum section. sum + length (sec_lessons section)) 0 (sections st)"

definition completedLessons :: "player \<Rightarrow> nat" where
  "completedLessons st = length (filter (\<lambda>p. lp_is_completed p) (map snd (progress st)))"

definition progressPercentage :: "player \<Rightarrow> nat" where
  "progressPercentage st =
     (if 0 < totalLessons st
      then Math_round (js_times (js_divide (completedLessons st) (totalLessons st)) 100)
      else 0)"

definition updateEnrollmentProgress ::
  "player \<Rightarrow> db \<Rightarrow> uuid option \<Rightarrow> string \<Rightarrow> timestamptz \<Rightarrow> db" where
  "updateEnrollmentProgress st d actor enrollmentId now =
     (case update_enrollment d actor enrollmentId (int (progressPercentage st))
             (if progressPercentage st = 100 then Some now else None) of
        Inl err \<Rightarrow> d
      | Inr d' \<Rightarrow> d')"

text \<open>
  \<^verbatim>\<open>handleProgressUpdate(lessonId, watchedSeconds, isCompleted)\<close>. When the upsert fails
  the handler throws into its \<^verbatim>\<open>catch\<close> and nothing else runs. Otherwise it schedules the
  new \<^verbatim>\<open>progress\<close> state and calls \<^verbatim>\<open>updateEnrollmentProgress\<close>. Both functions are
  closures of one render of the component, so the \<^verbatim>\<open>sections\<close> and \<^verbatim>\<open>progress\<close> that
  \<^verbatim>\<open>updateEnrollmentProgress\<close> reads are the constants of that render: the state \<open>st\<close>
  the handler was created with, in which the row just written is not yet filed.
  \<open>t_upsert\<close> and \<open>t_update\<close> are the two readings of the clock.
\<close>

definition handleProgressUpdate ::
  "player \<Rightarrow> db \<Rightarrow> uuid option \<Rightarrow> string \<Rightarrow> uuid \<Rightarrow> timestamptz \<Rightarrow> timestamptz
     \<Rightarrow> string \<Rightarrow> int \<Rightarrow> bool \<Rightarrow> db \<times> player" where
  "handleProgressUpdate st d actor enrollmentId new_id t_upsert t_update
       lessonId watchedSeconds isCompleted =
     (case upsert_progress d actor new_id t_upsert enrollmentId lessonId watchedSeconds isCompleted of
        Inl err \<Rightarrow> (d, st)
      | Inr (d', data) \<Rightarrow>
          (updateEnrollmentProgress st d' actor enrollmentId t_update,
           st\<lparr>progress := AList.update lessonId data (progress st)\<rparr>))"

subsection \<open>What the player's screen can do\<close>





section \<open>Certificates\<close>

text \<open>
  \<^verbatim>\<open>from('certificates').upsert({enrollment_id, certificate_url}, { onConflict:
  'enrollment_id' })\<close>: \<^verbatim>\<open>INSERT ... ON CONFLICT (enrollment_id) DO UPDATE\<close>. The proposed
  row is checked against the insert policy. When the enrollment has a certificate
  already the statement takes the update path, where the existing row has to pass the
  update policies, and fails if it does not; otherwise the row is inserted with a fresh
  id and \<^verbatim>\<open>issued_at = now()\<close>.
\<close>

definition upsert_certificate ::
  "db \<Rightarrow> uuid option \<Rightarrow> uuid \<Rightarrow> timestamptz \<Rightarrow> string \<Rightarrow> string \<Rightarrow> pg_error + db" where
  "upsert_certificate d actor new_id now enrollmentId certificateDataUrl =
     (if \<not> uuid_ok enrollmentId then Inl InvalidTextRepresentation
      else
        let proposed = \<lparr>ct_id = new_id, ct_enrollment_id = enrollmentId,
                        ct_certificate_url = Some certificateDataUrl, ct_issued_at = now\<rparr>;
            same_key = (\<lambda>c. ct_enrollment_id c = enrollmentId)
        in if \<not> certificates_owner_policy d actor proposed then Inl RlsViolation
           else
             (case find same_key (certificates d) of
                Some existing \<Rightarrow>
                  let updated = existing\<lparr>ct_certificate_url := Some certificateDataUrl\<rparr>
                  in if \<not> (certificates_owner_policy d actor existing
                            \<and> certificates_update_policy d actor existing
                            \<and> certificates_update_policy d actor updated)
                     then Inl RlsViolation
                     else Inr (d\<lparr>certificates :=
                                   map (\<lambda>c. if same_key c then updated else c) (certificates d)\<rparr>)
              | None \<Rightarrow>
                  if list_ex (\<lambda>c. ct_id c = new_id) (certificates d) then Inl UniqueViolation
                  else if \<not> list_ex (\<lambda>e. e_id e = enrollmentId) (enrollments d)
                    then Inl ForeignKeyViolation
                  else Inr (d\<lparr>certificates := certificates d @ [proposed]\<rparr>)))"

text \<open>
  \<^verbatim>\<open>handleGenerateCertificate(certificateDataUrl, enrollmentId)\<close> of the student
  dashboard: the upsert, whose error is logged in the \<^verbatim>\<open>catch\<close>. The handler returns
  nothing; the second component says whether the statement went through.
\<close>

definition handleGenerateCertificate ::
  "db \<Rightarrow> uuid option \<Rightarrow> uuid \<Rightarrow> timestamptz \<Rightarrow> string \<Rightarrow> string \<Rightarrow> db \<times> pg_error option" where
  "handleGenerateCertificate d actor new_id now certificateDataUrl enrollmentId =
     (case upsert_certificate d actor new_id now enrollmentId certificateDataUrl of
        Inl err \<Rightarrow> (d, Some err)
      | Inr d' \<Rightarrow> (d', None))"

text \<open>
  \<^verbatim>\<open>loadCertificates\<close>: the user's enrollments with \<^verbatim>\<open>completed_at\<close> not null, each with
  the certificate already stored for it, if any. These entries are the only ones the
  dashboard draws a certificate button for. \<open>shown\<close> is the list the dashboard held
  before (empty when it mounts), which it keeps when a query fails.
\<close>

definition loadCertificates ::
  "(enrollment_row \<times> certificate_row option) list \<Rightarrow> db \<Rightarrow> uuid option \<Rightarrow> string
     \<Rightarrow> (enrollment_row \<times> certificate_row option) list" where
  "loadCertificates shown d actor user =
     (if \<not> uuid_ok user then shown
      else
        let enrollmentsData =
              filter (\<lambda>e. e_student_id e = user \<and> e_completed_at e \<noteq> None)
                (visible_enrollments d actor);
            certsData =
              filter (\<lambda>c. ct_enrollment_id c \<in> set (map e_id enrollmentsData))
                (visible_certificates d actor);
            certsMap = fold (\<lambda>c m. AList.update (ct_enrollment_id c) c m) certsData []
        in map (\<lambda>enrollment. (enrollment, map_of certsMap (e_id enrollment))) enrollmentsData)"

section \<open>A sample catalogue\<close>

text \<open>
  The data the examples below run on. Bob teaches two courses: course 1 is published
  and has four lessons in two sections; course 2 is a draft with a preview lesson
  (lesson 5) and an ordinary one (lesson 6). Alice is a student. Lesson 7 is a fifth
  lesson for course 1, added later.
\<close>

definition alice :: uuid where
  "alice = ''a1000000-0000-0000-0000-000000000000''"

definition bob :: uuid where
  "bob = ''b0b00000-0000-0000-0000-000000000000''"

definition course1 :: uuid where
  "course1 = ''c1000000-0000-0000-0000-000000000000''"

definition course2 :: uuid where
  "course2 = ''c2000000-0000-0000-0000-000000000000''"

definition secA :: uuid where
  "secA = ''5a000000-0000-0000-0000-000000000000''"

definition secB :: uuid where
  "secB = ''5b000000-0000-0000-0000-000000000000''"

definition secC :: uuid where
  "secC = ''5c000000-0000-0000-0000-000000000000''"

definition lesson1 :: uuid where
  "lesson1 = ''11000000-0000-0000-0000-000000000000''"

definition lesson2 :: uuid where
  "lesson2 = ''12000000-0000-0000-0000-000000000000''"

definition lesson3 :: uuid where
  "lesson3 = ''13000000-0000-0000-0000-000000000000''"

definition lesson4 :: uuid where
  "lesson4 = ''14000000-0000-0000-0000-000000000000''"

definition lesson5 :: uuid where
  "lesson5 = ''15000000-0000-0000-0000-000000000000''"

definition lesson6 :: uuid where
  "lesson6 = ''16000000-0000-0000-0000-000000000000''"

definition lesson7 :: uuid where
  "lesson7 = ''17000000-0000-0000-0000-000000000000''"

definition enr1 :: uuid where
  "enr1 = ''e1000000-0000-0000-0000-000000000000''"

definition prog1 :: uuid where
  "prog1 = ''f1000000-0000-0000-0000-000000000000''"

definition prog2 :: uuid where
  "prog2 = ''f2000000-0000-0000-0000-000000000000''"

definition prog3 :: uuid where
  "prog3 = ''f3000000-0000-0000-0000-000000000000''"

definition prog4 :: uuid where
  "prog4 = ''f4000000-0000-0000-0000-000000000000''"

definition fresh1 :: uuid where
  "fresh1 = ''d1000000-0000-0000-0000-000000000000''"

definition fresh2 :: uuid where
  "fresh2 = ''d2000000-0000-0000-0000-000000000000''"

definition db_catalog :: db where
  "db_catalog =
     \<lparr>profiles = [\<lparr>p_id = alice, p_role = Student\<rparr>, \<lparr>p_id = bob, p_role = Instructor\<rparr>],
      courses = [\<lparr>c_id = course1, c_instructor_id = bob, c_is_published = True\<rparr>,
                 \<lparr>c_id = course2, c_instructor_id = bob, c_is_published = False\<rparr>],
      course_sections = [\<lparr>s_id = secA, s_course_id = course1, s_order_index = 1\<rparr>,
                         \<lparr>s_id = secB, s_course_id = course1, s_order_index = 2\<rparr>,
                         \<lparr>s_id = secC, s_course_id = course2, s_order_index = 1\<rparr>],
      lessons = [\<lparr>l_id = lesson1, l_section_id = secA, l_order_index = 1, l_is_preview = False\<rparr>,
                 \<lparr>l_id = lesson2, l_section_id = secA, l_order_index = 2, l_is_preview = False\<rparr>,
                 \<lparr>l_id = lesson3, l_section_id = secB, l_order_index = 1, l_is_preview = False\<rparr>,
                 \<lparr>l_id = lesson4, l_section_id = secB, l_order_index = 2, l_is_preview = False\<rparr>,
                 \<lparr>l_id = lesson5, l_section_id = secC, l_order_index = 1, l_is_preview = True\<rparr>,
                 \<lparr>l_id = lesson6, l_section_id = secC, l_order_index = 2, l_is_preview = False\<rparr>],
      enrollments = [], lesson_progress = [], certificates = []\<rparr>"

text \<open>
  Alice's enrollment in course 1 with the first \<open>n\<close> of its lessons completed, stored
  with the given percentage and completion time.
\<close>

definition completed_row :: "uuid \<Rightarrow> uuid \<Rightarrow> progress_row" where
  "completed_row pid lesson =
     \<lparr>lp_id = pid, lp_enrollment_id = enr1, lp_lesson_id = lesson, lp_watched_seconds = 600,
      lp_is_completed = True, lp_last_watched_at = 40\<rparr>"

definition db_enrolled :: "nat \<Rightarrow> int \<Rightarrow> timestamptz option \<Rightarrow> db" where
  "db_enrolled n percentage completedAt =
     db_catalog
       \<lparr>enrollments := [\<lparr>e_id = enr1, e_student_id = alice, e_course_id = course1,
                          e_enrolled_at = 10, e_completed_at = completedAt,
                          e_progress_percentage = percentage\<rparr>],
        lesson_progress := take n [completed_row prog1 lesson1, completed_row prog2 lesson2,
                                   completed_row prog3 lesson3, completed_row prog4 lesson4]\<rparr>"

definition add_lesson7 :: "db \<Rightarrow> db" where
  "add_lesson7 d =
     d\<lparr>lessons := lessons d @
          [\<lparr>l_id = lesson7, l_section_id = secB, l_order_index = 3, l_is_preview = False\<rparr>]\<rparr>"

text \<open>The player Alice opens on course 1 for her enrollment, over a given database.\<close>

definition alice_player :: "db \<Rightarrow> player" where
  "alice_player d = mount_player d (Some alice) course1 enr1"

section \<open>Auxiliary facts\<close>

lemma list_ex_append_single: "list_ex P (xs @ [x]) = (list_ex P xs \<or> P x)"
  by (auto simp: list_ex_iff)

lemma enrollments_select_own: "enrollments_select d (Some (e_student_id e)) e"
  by (simp add: enrollments_select_def)

lemma update_enrollment_eq:
  assumes "uuid_ok eid" "0 \<le> pct" "pct \<le> 100"
  shows "update_enrollment d actor eid pct c =
           Inr (d\<lparr>enrollments :=
                   map (\<lambda>e. if e_id e = eid \<and> actor = Some (e_student_id e)
                             then e\<lparr>e_progress_percentage := pct, e_completed_at := c\<rparr> else e)
                     (enrollments d)\<rparr>)"
proof -
  have target: "(e_id e = eid \<and> enrollments_select d actor e \<and> actor = Some (e_student_id e))
                  = (e_id e = eid \<and> actor = Some (e_student_id e))" for e
    by (auto simp: enrollments_select_own)
  have range: "int4_ok pct"
    using assms by (simp add: int4_ok_def)
  show ?thesis
    using assms range
    by (simp add: update_enrollment_def Let_def target enrollments_update_policy_def list_ex_iff)
qed

lemma owner_visible_iff:
  "list_ex (\<lambda>e. e_id e = eid \<and> e_student_id e = u) (visible_enrollments d (Some u))
     = list_ex (\<lambda>e. e_id e = eid \<and> e_student_id e = u) (enrollments d)"
  by (auto simp: list_ex_iff visible_enrollments_def enrollments_select_def)

lemma progress_policy_iff:
  "progress_policy d actor p
     = list_ex (\<lambda>e. e_id e = lp_enrollment_id p \<and> actor = Some (e_student_id e)) (enrollments d)"
proof (cases actor)
  case None
  then show ?thesis by (simp add: progress_policy_def list_ex_iff)
next
  case (Some u)
  have "list_ex (\<lambda>e. e_id e = lp_enrollment_id p \<and> Some u = Some (e_student_id e)) (enrollments d)
          = list_ex (\<lambda>e. e_id e = lp_enrollment_id p \<and> e_student_id e = u) (enrollments d)"
    by (auto simp: list_ex_iff)
  with Some show ?thesis by (simp add: progress_policy_def owner_visible_iff)
qed

lemma certificates_owner_policy_iff:
  "certificates_owner_policy d actor ct
     = list_ex (\<lambda>e. e_id e = ct_enrollment_id ct \<and> actor = Some (e_student_id e)) (enrollments d)"
proof (cases actor)
  case None
  then show ?thesis by (simp add: certificates_owner_policy_def list_ex_iff)
next
  case (Some u)
  have "list_ex (\<lambda>e. e_id e = ct_enrollment_id ct \<and> Some u = Some (e_student_id e)) (enrollments d)
          = list_ex (\<lambda>e. e_id e = ct_enrollment_id ct \<and> e_student_id e = u) (enrollments d)"
    by (auto simp: list_ex_iff)
  with Some show ?thesis by (simp add: certificates_owner_policy_def owner_visible_iff)
qed

lemma upsert_progress_Inr:
  assumes "upsert_progress d actor new_id now eid lid w c = Inr (d', row)"
  shows "uuid_ok eid" and "uuid_ok lid" and "int4_ok w"
    and "list_ex (\<lambda>e. e_id e = eid \<and> actor = Some (e_student_id e)) (enrollments d)"
    and "enrollments d' = enrollments d"
    and "lp_enrollment_id row = eid \<and> lp_lesson_id row = lid \<and> lp_watched_seconds row = w
         \<and> lp_is_completed row = c \<and> lp_last_watched_at row = now"
  using assms
  by (auto simp: upsert_progress_def Let_def progress_policy_iff
      split: if_splits option.splits dest: find_Some_iff[THEN iffD1])

lemma updateEnrollmentProgress_eq:
  assumes "uuid_ok eid" and "progressPercentage st \<le> 100"
  shows "updateEnrollmentProgress st d actor eid now =
           d\<lparr>enrollments :=
               map (\<lambda>e. if e_id e = eid \<and> actor = Some (e_student_id e)
                         then e\<lparr>e_progress_percentage := int (progressPercentage st),
                                e_completed_at := (if progressPercentage st = 100 then Some now else None)\<rparr>
                         else e)
                 (enrollments d)\<rparr>"
  using assms by (simp add: updateEnrollmentProgress_def update_enrollment_eq)

lemma updateEnrollmentProgress_frame:
  "lesson_progress (updateEnrollmentProgress st d actor eid now) = lesson_progress d"
  "certificates (updateEnrollmentProgress st d actor eid now) = certificates d"
  "lessons (updateEnrollmentProgress st d actor eid now) = lessons d"
  by (simp_all add: updateEnrollmentProgress_def update_enrollment_def Let_def split: sum.splits)

lemma upsert_progress_rows:
  assumes "upsert_progress d actor new_id now eid lid w c = Inr (d', row)"
  shows "d' = d\<lparr>lesson_progress :=
                  (if list_ex (\<lambda>p. lp_enrollment_id p = eid \<and> lp_lesson_id p = lid) (lesson_progress d)
                   then map (\<lambda>p. if lp_enrollment_id p = eid \<and> lp_lesson_id p = lid then row else p)
                          (lesson_progress d)
                   else lesson_progress d @ [row])\<rparr>"
proof (cases "find (\<lambda>p. lp_enrollment_id p = eid \<and> lp_lesson_id p = lid) (lesson_progress d)")
  case None
  then have "\<not> list_ex (\<lambda>p. lp_enrollment_id p = eid \<and> lp_lesson_id p = lid) (lesson_progress d)"
    by (auto simp: find_None_iff list_ex_iff)
  with None assms show ?thesis
    by (auto simp: upsert_progress_def Let_def split: if_splits)
next
  case (Some existing)
  then have "lp_enrollment_id existing = eid \<and> lp_lesson_id existing = lid"
    and "existing \<in> set (lesson_progress d)"
    by (auto simp: find_Some_iff)
  then have "list_ex (\<lambda>p. lp_enrollment_id p = eid \<and> lp_lesson_id p = lid) (lesson_progress d)"
    by (auto simp: list_ex_iff)
  with Some assms show ?thesis
    by (auto simp: upsert_progress_def Let_def split: if_splits)
qed

lemma upsert_progress_success_iff:
  assumes "\<not> list_ex (\<lambda>p. lp_id p = new_id) (lesson_progress d)"
  shows "(\<not> isl (upsert_progress d actor new_id now eid lid w c)) =
           (uuid_ok eid \<and> uuid_ok lid \<and> int4_ok w
            \<and> list_ex (\<lambda>e. e_id e = eid \<and> actor = Some (e_student_id e)) (enrollments d)
            \<and> (list_ex (\<lambda>p. lp_enrollment_id p = eid \<and> lp_lesson_id p = lid) (lesson_progress d)
               \<or> list_ex (\<lambda>l. l_id l = lid) (lessons d)))"
proof -
  have owner_exists: "list_ex (\<lambda>e. e_id e = eid) (enrollments d)"
    if "list_ex (\<lambda>e. e_id e = eid \<and> actor = Some (e_student_id e)) (enrollments d)"
    using that by (auto simp: list_ex_iff)
  show ?thesis
  proof (cases "find (\<lambda>p. lp_enrollment_id p = eid \<and> lp_lesson_id p = lid) (lesson_progress d)")
    case None
    then have "\<not> list_ex (\<lambda>p. lp_enrollment_id p = eid \<and> lp_lesson_id p = lid) (lesson_progress d)"
      by (auto simp: find_None_iff list_ex_iff)
    with None assms owner_exists show ?thesis
      by (auto simp: upsert_progress_def Let_def progress_policy_iff)
  next
    case (Some existing)
    then have key: "lp_enrollment_id existing = eid \<and> lp_lesson_id existing = lid"
      and mem: "existing \<in> set (lesson_progress d)"
      by (auto simp: find_Some_iff)
    from key mem have "list_ex (\<lambda>p. lp_enrollment_id p = eid \<and> lp_lesson_id p = lid) (lesson_progress d)"
      by (auto simp: list_ex_iff)
    with Some key show ?thesis
      by (auto simp: upsert_progress_def Let_def progress_policy_iff)
  qed
qed

lemma handleProgressUpdate_Inr:
  assumes "upsert_progress d actor new_id t1 eid lid w c = Inr (d', row)"
  shows "handleProgressUpdate st d actor eid new_id t1 t2 lid w c =
           (updateEnrollmentProgress st d' actor eid t2,
            st\<lparr>progress := AList.update lid row (progress st)\<rparr>)"
  using assms by (simp add: handleProgressUpdate_def)

lemma handleProgressUpdate_Inl:
  assumes "isl (upsert_progress d actor new_id t1 eid lid w c)"
  shows "handleProgressUpdate st d actor eid new_id t1 t2 lid w c = (d, st)"
  using assms by (auto simp: handleProgressUpdate_def split: sum.splits)

lemma handleProgressUpdate_enrollments:
  assumes "\<not> isl (upsert_progress d actor new_id t1 eid lid w c)"
    and "progressPercentage st \<le> 100"
  shows "enrollments (fst (handleProgressUpdate st d actor eid new_id t1 t2 lid w c)) =
           map (\<lambda>e. if e_id e = eid \<and> actor = Some (e_student_id e)
                     then e\<lparr>e_progress_percentage := int (progressPercentage st),
                            e_completed_at := (if progressPercentage st = 100 then Some t2 else None)\<rparr>
                     else e)
             (enrollments d)"
proof -
  from assms(1) obtain d' row where ok: "upsert_progress d actor new_id t1 eid lid w c = Inr (d', row)"
    by (cases "upsert_progress d actor new_id t1 eid lid w c") auto
  from upsert_progress_Inr(1,5)[OF ok] assms(2) show ?thesis
    by (simp add: handleProgressUpdate_Inr[OF ok] updateEnrollmentProgress_eq)
qed

lemma handleProgressUpdate_rows:
  assumes "\<not> isl (upsert_progress d actor new_id t1 eid lid w c)"
  shows "lesson_progress (fst (handleProgressUpdate st d actor eid new_id t1 t2 lid w c)) =
           (let row = (case find (\<lambda>p. lp_enrollment_id p = eid \<and> lp_lesson_id p = lid) (lesson_progress d) of
                         Some existing \<Rightarrow> existing\<lparr>lp_watched_seconds := w, lp_is_completed := c,
                                                   lp_last_watched_at := t1\<rparr>
                       | None \<Rightarrow> \<lparr>lp_id = new_id, lp_enrollment_id = eid, lp_lesson_id = lid,
                                  lp_watched_seconds = w, lp_is_completed = c, lp_last_watched_at = t1\<rparr>)
            in if list_ex (\<lambda>p. lp_enrollment_id p = eid \<and> lp_lesson_id p = lid) (lesson_progress d)
               then map (\<lambda>p. if lp_enrollment_id p = eid \<and> lp_lesson_id p = lid then row else p)
                      (lesson_progress d)
               else lesson_progress d @ [row])"
proof -
  from assms obtain d' row where ok: "upsert_progress d actor new_id t1 eid lid w c = Inr (d', row)"
    by (cases "upsert_progress d actor new_id t1 eid lid w c") auto
  have row: "row = (case find (\<lambda>p. lp_enrollment_id p = eid \<and> lp_lesson_id p = lid) (lesson_progress d) of
                         Some existing \<Rightarrow> existing\<lparr>lp_watched_seconds := w, lp_is_completed := c,
                                                   lp_last_watched_at := t1\<rparr>
                       | None \<Rightarrow> \<lparr>lp_id = new_id, lp_enrollment_id = eid, lp_lesson_id = lid,
                                  lp_watched_seconds = w, lp_is_completed = c, lp_last_watched_at = t1\<rparr>)"
    using ok by (auto simp: upsert_progress_def Let_def split: if_splits option.splits)
  show ?thesis
    unfolding handleProgressUpdate_Inr[OF ok] Let_def row[symmetric]
    by (simp add: updateEnrollmentProgress_frame upsert_progress_rows[OF ok])
qed




lemma no_sections_no_progress:
  assumes "sections st = []"
  shows "totalLessons st = 0" and "progressPercentage st = 0"
  using assms by (simp_all add: totalLessons_def progressPercentage_def)

lemma handleProgressUpdate_keeps_sections:
  "sections (snd (handleProgressUpdate st d actor eid new_id t1 t2 lid w c)) = sections st"
  by (simp add: handleProgressUpdate_def split: sum.splits prod.splits)

lemma upsert_certificate_success_iff:
  assumes "\<not> list_ex (\<lambda>c. ct_enrollment_id c = eid) (certificates d)"
    and "\<not> list_ex (\<lambda>c. ct_id c = new_id) (certificates d)"
  shows "(\<not> isl (upsert_certificate d actor new_id now eid url)) =
           (uuid_ok eid
            \<and> list_ex (\<lambda>e. e_id e = eid \<and> actor = Some (e_student_id e)) (enrollments d))"
proof -
  have none: "find (\<lambda>c. ct_enrollment_id c = eid) (certificates d) = None"
    using assms(1) by (auto simp: find_None_iff list_ex_iff)
  have exists: "list_ex (\<lambda>e. e_id e = eid) (enrollments d)"
    if "list_ex (\<lambda>e. e_id e = eid \<and> actor = Some (e_student_id e)) (enrollments d)"
    using that by (auto simp: list_ex_iff)
  show ?thesis
    using assms(2) none exists
    by (auto simp: upsert_certificate_def Let_def certificates_owner_policy_iff)
qed

lemma loadCertificates_completed:
  "list_all (\<lambda>(e, c). e_student_id e = user \<and> e_completed_at e \<noteq> None)
     (loadCertificates [] d actor user)"
  by (simp add: loadCertificates_def Let_def list_all_iff)

lemma handleProgressUpdate_without_sections:
  assumes "sections st = []"
    and "\<not> isl (upsert_progress d actor new_id t1 eid lid w c)"
  shows "enrollments (fst (handleProgressUpdate st d actor eid new_id t1 t2 lid w c)) =
           map (\<lambda>e. if e_id e = eid \<and> actor = Some (e_student_id e)
                     then e\<lparr>e_progress_percentage := 0, e_completed_at := None\<rparr> else e)
             (enrollments d)"
  using handleProgressUpdate_enrollments[OF assms(2), of st t2] no_sections_no_progress(2)[OF assms(1)]
  by simp





subsection \<open>Evaluating the percentage on numerals\<close>

lemma bitlen_numeral:
  "bitlen 0 = 0"
  "bitlen 1 = 1"
  "bitlen (Suc 0) = 1"
  "bitlen (numeral Num.One) = 1"
  "bitlen (numeral (Num.Bit0 k)) = Suc (bitlen (numeral k))"
  "bitlen (numeral (Num.Bit1 k)) = Suc (bitlen (numeral k))"
proof -
  show "bitlen 0 = 0" by (simp add: bitlen.simps)
  show suc: "bitlen (Suc 0) = 1" by (simp add: bitlen.simps[of "Suc 0"] bitlen.simps[of 0])
  then show one: "bitlen 1 = 1" by simp
  from one show "bitlen (numeral Num.One) = 1" by simp
  have "numeral (Num.Bit0 k) div 2 = (numeral k :: nat)" by simp
  then show "bitlen (numeral (Num.Bit0 k)) = Suc (bitlen (numeral k))"
    by (subst bitlen.simps) simp
  have "numeral (Num.Bit1 k) div 2 = (numeral k :: nat)" by simp
  then show "bitlen (numeral (Num.Bit1 k)) = Suc (bitlen (numeral k))"
    by (subst bitlen.simps) simp
qed

lemmas js_eval = Math_round_def js_times_def js_divide_def to_double_def round_half_even_def
  Let_def bitlen_numeral

subsection \<open>Facts about the sample data\<close>

lemma sample_ids_ok:
  "uuid_ok alice" "uuid_ok course1" "uuid_ok enr1" "uuid_ok lesson1" "uuid_ok lesson2"
  "uuid_ok lesson3" "uuid_ok lesson5" "uuid_ok lesson6"
  by code_simp+

lemma db_enrolled_tables:
  "enrollments (db_enrolled n percentage completedAt) =
     [\<lparr>e_id = enr1, e_student_id = alice, e_course_id = course1, e_enrolled_at = 10,
       e_completed_at = completedAt, e_progress_percentage = percentage\<rparr>]"
  "certificates (db_enrolled n percentage completedAt) = []"
  by (simp_all add: db_enrolled_def db_catalog_def)

lemma add_lesson7_tables:
  "enrollments (add_lesson7 d) = enrollments d"
  "lesson_progress (add_lesson7 d) = lesson_progress d"
  by (simp_all add: add_lesson7_def)

lemma player_two_counts:
  "totalLessons (alice_player (db_enrolled 2 50 None)) = 4"
  "completedLessons (alice_player (db_enrolled 2 50 None)) = 2"
  by code_simp+

lemma player_two_of_five_counts:
  "totalLessons (alice_player (add_lesson7 (db_enrolled 2 50 None))) = 5"
  "completedLessons (alice_player (add_lesson7 (db_enrolled 2 50 None))) = 2"
  by code_simp+

lemma player_four_of_five_counts:
  "totalLessons (alice_player (add_lesson7 (db_enrolled 4 100 (Some 50)))) = 5"
  "completedLessons (alice_player (add_lesson7 (db_enrolled 4 100 (Some 50)))) = 4"
  by code_simp+

lemma sample_percentages:
  "progressPercentage (alice_player (db_enrolled 2 50 None)) = 50"
  "progressPercentage (alice_player (add_lesson7 (db_enrolled 2 50 None))) = 40"
  "progressPercentage (alice_player (add_lesson7 (db_enrolled 4 100 (Some 50)))) = 80"
  unfolding progressPercentage_def player_two_counts player_two_of_five_counts
    player_four_of_five_counts
  by (simp_all add: js_eval)

subsection \<open>The percentage is a nearest integer\<close>

text \<open>
  The two roundings of the double arithmetic each lose at most one part in \<open>2 ^ 53\<close>,
  which is too little to move \<open>100 * c / t\<close> across a half-integer it is not already
  on. So \<^verbatim>\<open>Math.round((c / t) * 100)\<close> is an integer nearest to \<open>100 * c / t\<close>; when
  \<open>100 * c / t\<close> lies exactly between two integers the result is one of the two (for
  23 of 40 it is 57, the product being the double just below 57.5).
\<close>

lemma bitlen_bounds:
  "0 < n \<Longrightarrow> 2 ^ (bitlen n - 1) \<le> n \<and> n < 2 ^ bitlen n"
proof (induction n rule: bitlen.induct)
  case (1 n)
  show ?case
  proof (cases "n div 2 = 0")
    case True
    with 1(2) have "n = 1" by arith
    then show ?thesis by (simp add: bitlen_numeral)
  next
    case False
    then have pos: "0 < n div 2" by simp
    from 1(2) have n0: "n \<noteq> 0" by simp
    from 1(1)[OF n0 pos] have ih: "2 ^ (bitlen (n div 2) - 1) \<le> n div 2" "n div 2 < 2 ^ bitlen (n div 2)"
      by simp_all
    have len: "bitlen n = Suc (bitlen (n div 2))"
      using n0 by (subst bitlen.simps) simp
    have half_pos: "0 < bitlen (n div 2)"
      using pos by (subst bitlen.simps) simp
    then have split: "(2::nat) ^ bitlen (n div 2) = 2 * 2 ^ (bitlen (n div 2) - 1)"
      by (cases "bitlen (n div 2)") simp_all
    define h where "h = n div 2"
    define p where "p = (2::nat) ^ (bitlen h - 1)"
    have "2 * h \<le> n" and "n < 2 * h + 2" unfolding h_def by arith+
    moreover have "p \<le> h" and "h < 2 * p"
      using ih split unfolding h_def p_def by simp_all
    ultimately have "2 * p \<le> n \<and> n < 2 * (2 * p)" by arith
    then show ?thesis
      unfolding len using split by (simp add: h_def p_def)
  qed
qed

lemma round_half_even_error:
  assumes "0 < d"
  shows "2 * \<bar>int (round_half_even n d) * int d - int n\<bar> \<le> int d"
proof -
  define q where "q = n div d"
  define r where "r = n mod d"
  have n: "int n = int q * int d + int r"
    unfolding q_def r_def by (metis div_mult_mod_eq of_nat_add of_nat_mult)
  have r: "r < d" unfolding r_def using assms by simp
  consider "2 * r < d" | "d < 2 * r" | "d = 2 * r" by arith
  then show ?thesis
  proof cases
    case 1
    then have "round_half_even n d = q" by (simp add: round_half_even_def q_def r_def Let_def)
    with n 1 show ?thesis by simp
  next
    case 2
    then have "round_half_even n d = q + 1" by (simp add: round_half_even_def q_def r_def Let_def)
    with n 2 r show ?thesis by (simp add: algebra_simps)
  next
    case 3
    then have "round_half_even n d = q \<or> round_half_even n d = q + 1"
      by (simp add: round_half_even_def q_def r_def Let_def)
    with n 3 show ?thesis by (auto simp: algebra_simps)
  qed
qed

lemma two_powr_int:
  "(2::real) powr real_of_int i = (if 0 \<le> i then 2 ^ nat i else 1 / 2 ^ nat (- i))"
  by (simp add: powr_int)

lemma to_double_error:
  assumes n: "0 < n" and d: "0 < d" and small: "real n < real d * 2 ^ 52"
  shows "\<exists>m s. to_double n d = (m, - int s) \<and> 0 < s
           \<and> 2 * \<bar>real m - real n / real d * 2 ^ s\<bar> \<le> 1
           \<and> 2 ^ 52 \<le> real n / real d * 2 ^ s"
proof -
  define \<rho> where "\<rho> = real n / real d"
  have \<rho>_pos: "0 < \<rho>" using n d by (simp add: \<rho>_def)
  have \<rho>_small: "\<rho> < 2 ^ 52" using small d by (simp add: \<rho>_def pos_divide_less_eq)
  define k where "k = int (bitlen n) - int (bitlen d)"
  define test where "test = (if 0 \<le> k then d * 2 ^ nat k \<le> n else d \<le> n * 2 ^ nat (- k))"
  define lg where "lg = (if test then k else k - 1)"
  have test_iff: "test \<longleftrightarrow> 2 powr real_of_int k \<le> \<rho>"
  proof (cases "0 \<le> k")
    case True
    have "(d * 2 ^ nat k \<le> n) = (real d * 2 ^ nat k \<le> real n)"
      by (metis of_nat_le_iff of_nat_mult of_nat_numeral of_nat_power)
    also have "\<dots> = (2 ^ nat k \<le> \<rho>)"
      using d by (simp add: \<rho>_def pos_le_divide_eq mult.commute)
    finally show ?thesis using True by (simp add: test_def two_powr_int)
  next
    case False
    have "(d \<le> n * 2 ^ nat (- k)) = (real d \<le> real n * 2 ^ nat (- k))"
      by (metis of_nat_le_iff of_nat_mult of_nat_numeral of_nat_power)
    also have "\<dots> = (1 / 2 ^ nat (- k) \<le> \<rho>)"
      using d by (simp add: \<rho>_def field_simps)
    finally show ?thesis using False by (simp add: test_def two_powr_int)
  qed
  have low: "2 powr real_of_int (k - 1) \<le> \<rho>"
  proof -
    from bitlen_bounds[OF n] have bn: "2 ^ (bitlen n - 1) \<le> n" "n < 2 ^ bitlen n" by simp_all
    from bitlen_bounds[OF d] have bd: "d < 2 ^ bitlen d" by simp
    have bn_pos: "0 < bitlen n" using bn(2) n by (cases "bitlen n") simp_all
    have "real_of_int (k - 1) = real (bitlen n - 1) - real (bitlen d)"
      using bn_pos by (simp add: k_def of_nat_diff)
    then have "2 powr real_of_int (k - 1) = 2 ^ (bitlen n - 1) / 2 ^ bitlen d"
      by (simp add: powr_diff powr_realpow)
    also have "\<dots> \<le> real n / 2 ^ bitlen d"
    proof -
      have "(2::real) ^ (bitlen n - 1) \<le> real n"
        using bn(1) by (metis of_nat_le_iff of_nat_numeral of_nat_power)
      then show ?thesis by (simp add: divide_right_mono)
    qed
    also have "\<dots> \<le> real n / real d"
    proof -
      have "real d \<le> 2 ^ bitlen d"
        using bd by (metis less_imp_le of_nat_le_iff of_nat_numeral of_nat_power)
      then show ?thesis using n d by (simp add: frac_le)
    qed
    finally show ?thesis by (simp add: \<rho>_def)
  qed
  have lg_low: "2 powr real_of_int lg \<le> \<rho>"
    using test_iff low by (simp add: lg_def)
  have "2 powr real_of_int lg < 2 powr (52::real)"
    using lg_low \<rho>_small by simp
  then have "real_of_int lg < 52"
    using powr_less_cancel_iff[of 2 "real_of_int lg" 52] by simp
  then have lg_lt: "lg < 52" by simp
  define s where "s = nat (52 - lg)"
  have s_pos: "0 < s" and s_int: "int s = 52 - lg" using lg_lt by (simp_all add: s_def)
  define m where "m = round_half_even (n * 2 ^ s) d"
  have result: "to_double n d = (m, - int s)"
    using lg_lt
    by (simp add: to_double_def Let_def k_def[symmetric] test_def[symmetric] lg_def[symmetric]
        m_def s_def)
  have "2 * \<bar>int m * int d - int (n * 2 ^ s)\<bar> \<le> int d"
    unfolding m_def using d by (rule round_half_even_error)
  then have "2 * \<bar>real m * real d - real n * 2 ^ s\<bar> \<le> real d"
    by (metis (mono_tags, opaque_lifting) of_int_abs of_int_diff of_int_le_iff of_int_mult
        of_int_numeral of_int_of_nat_eq of_nat_mult of_nat_numeral of_nat_power)
  moreover have "real m * real d - real n * 2 ^ s = real d * (real m - \<rho> * 2 ^ s)"
    using d by (simp add: \<rho>_def field_simps)
  ultimately have "real d * (2 * \<bar>real m - \<rho> * 2 ^ s\<bar>) \<le> real d * 1"
    using d by (simp add: abs_mult)
  then have err: "2 * \<bar>real m - \<rho> * 2 ^ s\<bar> \<le> 1"
    using d by (simp only: mult_le_cancel_left_pos of_nat_0_less_iff)
  have "(2::real) ^ s = 2 powr real_of_int (52 - lg)"
    using lg_lt unfolding two_powr_int s_def by simp
  also have "\<dots> = 2 ^ 52 / 2 powr real_of_int lg"
    by (simp add: powr_diff powr_realpow)
  finally have "\<rho> * 2 ^ s = 2 ^ 52 * (\<rho> / 2 powr real_of_int lg)" by simp
  moreover have "1 \<le> \<rho> / 2 powr real_of_int lg"
    using lg_low by (simp add: pos_le_divide_eq)
  ultimately have norm: "2 ^ 52 \<le> \<rho> * 2 ^ s"
    by (metis mult.right_neutral mult_left_mono zero_le_numeral zero_le_power)
  show ?thesis
    using result s_pos err norm unfolding \<rho>_def by blast
qed

lemma abs_chain:
  fixes q :: real
  assumes "\<bar>q - \<rho>\<bar> \<le> \<epsilon>" and "\<bar>y - 100 * q\<bar> \<le> 200 * \<epsilon>"
  shows "\<bar>y - 100 * \<rho>\<bar> \<le> 300 * \<epsilon>"
proof -
  from assms have "q - \<rho> \<le> \<epsilon>" "\<rho> - q \<le> \<epsilon>" "y - 100 * q \<le> 200 * \<epsilon>" "100 * q - y \<le> 200 * \<epsilon>"
    by (simp_all add: abs_le_iff)
  then have "y - 100 * \<rho> \<le> 300 * \<epsilon>" and "100 * \<rho> - y \<le> 300 * \<epsilon>"
    by linarith+
  then show ?thesis by (simp add: abs_le_iff)
qed

lemma half_window:
  fixes R :: real
  assumes "R \<le> Y + T / 2" and "Y + T / 2 < R + T" and "\<bar>Y - C\<bar> < 1 / 2"
  shows "2 * \<bar>R - C\<bar> < T + 1"
proof -
  from assms(3) have "Y - C < 1 / 2 \<and> - (Y - C) < 1 / 2"
    by (simp only: abs_less_iff)
  then have "Y - C < 1 / 2" "C - Y < 1 / 2"
    by linarith+
  with assms(1,2) have "R - C < T / 2 + 1 / 2 \<and> - (R - C) < T / 2 + 1 / 2"
    by linarith
  then have "\<bar>R - C\<bar> < T / 2 + 1 / 2" by (simp only: abs_less_iff)
  then show ?thesis by simp
qed

lemma near_positive:
  fixes m :: real
  assumes "2 * \<bar>m - z\<bar> \<le> 1" and "1 \<le> z"
  shows "0 < m"
proof -
  from assms(1) have "\<bar>m - z\<bar> \<le> 1 / 2" by simp
  then have "m - z \<le> 1 / 2 \<and> - (m - z) \<le> 1 / 2" by (simp only: abs_le_iff)
  then have "z - m \<le> 1 / 2" by linarith
  with assms(2) show ?thesis by linarith
qed

lemma abs_upper:
  fixes q :: real
  assumes "\<bar>q - \<rho>\<bar> \<le> \<epsilon>"
  shows "q \<le> \<rho> + \<epsilon>"
  using assms by (simp add: abs_le_iff)

lemma scaled_error:
  fixes a b :: real
  assumes s: "0 < s" and err: "2 * \<bar>real m - a * 2 ^ s\<bar> \<le> 1" and norm: "2 ^ 52 \<le> a * 2 ^ s"
  shows "\<bar>real m / 2 ^ s - a\<bar> \<le> a / 2 ^ 53" and "0 < m"
proof -
  have p: "(0::real) < 2 ^ s" by simp
  have "real m / 2 ^ s - a = (real m - a * 2 ^ s) / 2 ^ s"
    by (simp add: field_simps)
  then have "\<bar>real m / 2 ^ s - a\<bar> = \<bar>real m - a * 2 ^ s\<bar> / 2 ^ s"
    by (simp add: abs_divide)
  also have "\<dots> \<le> (1 / 2) / 2 ^ s"
    using err by (intro divide_right_mono) simp_all
  also have "\<dots> \<le> a / 2 ^ 53"
  proof -
    have "2 ^ 52 / 2 ^ s \<le> a"
      using norm p by (simp add: pos_divide_le_eq)
    then have "(2 ^ 52 / 2 ^ s) / 2 ^ 53 \<le> a / 2 ^ 53"
      by (intro divide_right_mono) simp_all
    moreover have "(2 ^ 52 / 2 ^ s) / 2 ^ 53 = (1 / 2) / (2::real) ^ s"
      by simp
    ultimately show ?thesis by simp
  qed
  finally show "\<bar>real m / 2 ^ s - a\<bar> \<le> a / 2 ^ 53" .
  define z where "z = a * 2 ^ s"
  have "2 * \<bar>real m - z\<bar> \<le> 1"
    using err by (simp add: z_def)
  moreover have "1 \<le> z"
  proof -
    have "(1::real) \<le> 2 ^ 52" by simp
    also have "\<dots> \<le> z" using norm by (simp add: z_def)
    finally show ?thesis .
  qed
  ultimately have "real m > 0" by (rule near_positive)
  then show "0 < m" by simp
qed

lemma js_percentage_nearest:
  assumes t: "0 < t" and c: "c < 2 ^ 40"
  shows "2 * \<bar>int t * int (Math_round (js_times (js_divide c t) 100)) - 100 * int c\<bar> \<le> int t"
proof (cases "c = 0")
  case True
  then show ?thesis by (simp add: js_divide_def js_times_def Math_round_def)
next
  case False
  then have c_pos: "0 < c" by simp
  define \<rho> where "\<rho> = real c / real t"
  have c_real: "real c < 2 ^ 40"
    using c by (metis of_nat_less_iff of_nat_numeral of_nat_power)
  have t_real: "1 \<le> real t" using t by simp
  have \<rho>_pos: "0 < \<rho>" using c_pos t by (simp add: \<rho>_def)
  have \<rho>_t: "real t * \<rho> = real c" using t by (simp add: \<rho>_def)
  have \<rho>_le: "\<rho> \<le> real c"
  proof -
    have "real c * 1 \<le> real c * real t"
      using t_real by (intro mult_left_mono) simp_all
    then show ?thesis using t by (simp add: \<rho>_def pos_divide_le_eq)
  qed
  have "real c < real t * 2 ^ 52"
  proof -
    have "real c < 2 ^ 52" using c_real by simp
    also have "\<dots> \<le> real t * 2 ^ 52" using t_real by simp
    finally show ?thesis .
  qed
  from to_double_error[OF c_pos t this]
  obtain m1 s1 where d1: "to_double c t = (m1, - int s1)" and s1: "0 < s1"
    and e1: "2 * \<bar>real m1 - \<rho> * 2 ^ s1\<bar> \<le> 1" and n1: "2 ^ 52 \<le> \<rho> * 2 ^ s1"
    unfolding \<rho>_def by blast
  define q where "q = real m1 / 2 ^ s1"
  from scaled_error[OF s1 e1 n1] have q_err: "\<bar>q - \<rho>\<bar> \<le> \<rho> / 2 ^ 53" and m1_pos: "0 < m1"
    by (simp_all add: q_def)
  have q_le: "q \<le> 2 * \<rho>"
  proof -
    define \<epsilon> where "\<epsilon> = \<rho> / 2 ^ 53"
    have "\<bar>q - \<rho>\<bar> \<le> \<epsilon>" using q_err by (simp add: \<epsilon>_def)
    then have "q \<le> \<rho> + \<epsilon>" by (rule abs_upper)
    moreover have "\<epsilon> \<le> \<rho>"
    proof -
      have "\<rho> / 2 ^ 53 \<le> \<rho> / 1"
        using \<rho>_pos by (intro divide_left_mono) simp_all
      then show ?thesis by (simp add: \<epsilon>_def)
    qed
    ultimately show ?thesis by linarith
  qed
  have q_pos: "0 < q" using m1_pos by (simp add: q_def)
  have q_small: "real (m1 * 100) < real ((2::nat) ^ s1) * 2 ^ 52"
  proof -
    have "100 * q \<le> 200 * \<rho>" using q_le by linarith
    also have "\<dots> \<le> 200 * real c" using \<rho>_le by linarith
    also have "\<dots> < 200 * 2 ^ 40" using c_real by linarith
    also have "\<dots> \<le> (2::real) ^ 52" by simp
    finally have "100 * q < 2 ^ 52" .
    then have "100 * (real m1 / 2 ^ s1) * 2 ^ s1 < 2 ^ 52 * 2 ^ s1"
      unfolding q_def by (intro mult_strict_right_mono) simp_all
    then have "100 * real m1 < 2 ^ 52 * 2 ^ s1" by simp
    then show ?thesis by (simp add: mult.commute)
  qed
  have times: "js_times (js_divide c t) 100 = to_double (m1 * 100) (2 ^ s1)"
    using False m1_pos s1 by (simp add: js_divide_def js_times_def d1)
  have pos1: "0 < m1 * 100" using m1_pos by simp
  have pos2: "(0::nat) < 2 ^ s1" by simp
  from to_double_error[OF pos1 pos2 q_small]
  obtain m2 s2 where d2: "to_double (m1 * 100) (2 ^ s1) = (m2, - int s2)" and s2: "0 < s2"
    and e2': "2 * \<bar>real m2 - real (m1 * 100) / real ((2::nat) ^ s1) * 2 ^ s2\<bar> \<le> 1"
    and n2': "2 ^ 52 \<le> real (m1 * 100) / real ((2::nat) ^ s1) * 2 ^ s2"
    by blast
  have ratio: "real (m1 * 100) / real ((2::nat) ^ s1) = 100 * q"
    by (simp add: q_def)
  from e2' n2' have e2: "2 * \<bar>real m2 - (100 * q) * 2 ^ s2\<bar> \<le> 1" and n2: "2 ^ 52 \<le> (100 * q) * 2 ^ s2"
    unfolding ratio by simp_all
  define y where "y = real m2 / 2 ^ s2"
  from scaled_error(1)[OF s2 e2 n2] have y_err: "\<bar>y - 100 * q\<bar> \<le> (100 * q) / 2 ^ 53"
    by (simp add: y_def)
  define r where "r = Math_round (js_times (js_divide c t) 100)"
  have r_eq: "r = (2 * m2 + 2 ^ s2) div 2 ^ Suc s2"
    using s2 by (simp add: r_def times d2 Math_round_def nat_add_distrib Suc_nat_eq_nat_zadd1)
  define P where "P = real ((2::nat) ^ Suc s2)"
  have P_pos: "0 < P" by (simp add: P_def)
  have half: "real (2 * m2 + 2 ^ s2) = (y + 1 / 2) * P"
    by (simp add: y_def P_def field_simps)
  have r_low: "real r \<le> y + 1 / 2"
  proof -
    have "r * 2 ^ Suc s2 \<le> 2 * m2 + 2 ^ s2"
      unfolding r_eq by (rule div_times_less_eq_dividend)
    then have le: "real (r * 2 ^ Suc s2) \<le> real (2 * m2 + 2 ^ s2)"
      by (rule of_nat_mono)
    have left: "real (r * 2 ^ Suc s2) = real r * P"
      unfolding P_def by (rule of_nat_mult)
    have "real r * P \<le> (y + 1 / 2) * P"
      using le unfolding left half .
    then show ?thesis using P_pos by (simp only: mult_le_cancel_right_pos)
  qed
  have r_up: "y + 1 / 2 < real r + 1"
  proof -
    have "2 * m2 + 2 ^ s2 < (r + 1) * 2 ^ Suc s2"
      unfolding r_eq using dividend_less_div_times[of "2 ^ Suc s2" "2 * m2 + 2 ^ s2"]
      by (simp add: algebra_simps)
    then have lt: "real (2 * m2 + 2 ^ s2) < real ((r + 1) * 2 ^ Suc s2)"
      by (simp only: of_nat_less_iff)
    have right: "real ((r + 1) * 2 ^ Suc s2) = (real r + 1) * P"
      unfolding P_def by (simp only: of_nat_mult of_nat_add of_nat_1)
    have "(y + 1 / 2) * P < (real r + 1) * P"
      using lt unfolding right half .
    then show ?thesis using P_pos by (simp only: mult_less_cancel_right_pos)
  qed
  have close: "\<bar>real t * y - 100 * real c\<bar> < 1 / 2"
  proof -
    define \<epsilon> where "\<epsilon> = \<rho> / 2 ^ 53"
    define \<kappa> where "\<kappa> = real c / 2 ^ 53"
    have b1: "\<bar>q - \<rho>\<bar> \<le> \<epsilon>" using q_err by (simp add: \<epsilon>_def)
    have "q / 2 ^ 53 \<le> (2 * \<rho>) / 2 ^ 53"
      using q_le by (intro divide_right_mono) simp_all
    then have "100 * (q / 2 ^ 53) \<le> 200 * \<epsilon>" by (simp add: \<epsilon>_def)
    moreover have "\<bar>y - 100 * q\<bar> \<le> 100 * (q / 2 ^ 53)" using y_err by simp
    ultimately have b2: "\<bar>y - 100 * q\<bar> \<le> 200 * \<epsilon>" by linarith
    from b1 b2 have b3: "\<bar>y - 100 * \<rho>\<bar> \<le> 300 * \<epsilon>" by (rule abs_chain)
    have scale: "real t * \<epsilon> = \<kappa>"
      using \<rho>_t by (simp add: \<epsilon>_def \<kappa>_def)
    have "real t * \<bar>y - 100 * \<rho>\<bar> \<le> real t * (300 * \<epsilon>)"
      using b3 by (intro mult_left_mono) simp_all
    also have "\<dots> = 300 * \<kappa>" using scale by simp
    finally have b4: "real t * \<bar>y - 100 * \<rho>\<bar> \<le> 300 * \<kappa>" .
    have "\<kappa> < 2 ^ 40 / 2 ^ 53"
      unfolding \<kappa>_def using c_real by (intro divide_strict_right_mono) simp_all
    also have "\<dots> = 1 / (8192::real)" by simp
    finally have b5: "300 * \<kappa> < 1 / 2" by simp
    have "real t * \<bar>y - 100 * \<rho>\<bar> = \<bar>real t * (y - 100 * \<rho>)\<bar>"
      using t by (simp add: abs_mult)
    also have "real t * (y - 100 * \<rho>) = real t * y - 100 * (real t * \<rho>)"
      by (simp add: algebra_simps)
    finally have "real t * \<bar>y - 100 * \<rho>\<bar> = \<bar>real t * y - 100 * real c\<bar>"
      by (simp add: \<rho>_t)
    with b4 b5 show ?thesis by linarith
  qed
  define R where "R = real t * real r"
  define Y where "Y = real t * y"
  have "real t * real r \<le> real t * (y + 1 / 2)"
    using r_low by (intro mult_left_mono) simp_all
  then have u1: "R \<le> Y + real t / 2" by (simp add: R_def Y_def algebra_simps)
  have "real t * (y + 1 / 2) < real t * (real r + 1)"
    using r_up t by (intro mult_strict_left_mono) simp_all
  then have u2: "Y + real t / 2 < R + real t" by (simp add: R_def Y_def algebra_simps)
  have u3: "\<bar>Y - 100 * real c\<bar> < 1 / 2" using close by (simp add: Y_def)
  from u1 u2 u3 have "2 * \<bar>R - 100 * real c\<bar> < real t + 1" by (rule half_window)
  then have "2 * \<bar>real t * real r - 100 * real c\<bar> < real t + 1" by (simp add: R_def)
  then have "real_of_int (2 * \<bar>int t * int r - 100 * int c\<bar>) < real_of_int (int t + 1)"
    by simp
  then have "2 * \<bar>int t * int r - 100 * int c\<bar> < int t + 1"
    by (simp only: of_int_less_iff)
  then show ?thesis unfolding r_def by simp
qed

lemma progressPercentage_nearest:
  assumes "totalLessons st < 2 ^ 40" and "completedLessons st \<le> totalLessons st"
  shows "(if totalLessons st = 0 then progressPercentage st = 0
          else 2 * \<bar>int (totalLessons st) * int (progressPercentage st)
                     - 100 * int (completedLessons st)\<bar> \<le> int (totalLessons st))"
    and "progressPercentage st \<le> 100"
proof -
  define t where "t = totalLessons st"
  define c where "c = completedLessons st"
  define r where "r = progressPercentage st"
  have c: "c < 2 ^ 40" and ct: "c \<le> t" using assms by (simp_all add: t_def c_def)
  show near: "(if totalLessons st = 0 then progressPercentage st = 0
          else 2 * \<bar>int (totalLessons st) * int (progressPercentage st)
                     - 100 * int (completedLessons st)\<bar> \<le> int (totalLessons st))"
    using js_percentage_nearest[of "totalLessons st" "completedLessons st"] c
    by (simp add: progressPercentage_def c_def)
  show "progressPercentage st \<le> 100"
  proof (cases "t = 0")
    case True
    then show ?thesis by (simp add: progressPercentage_def t_def)
  next
    case False
    with near have b: "2 * \<bar>int t * int r - 100 * int c\<bar> \<le> int t"
      by (simp add: t_def r_def c_def)
    define TR where "TR = int t * int r"
    define A where "A = \<bar>TR - 100 * int c\<bar>"
    have b1: "TR - 100 * int c \<le> A" by (simp add: A_def)
    have b2: "2 * A \<le> int t" using b by (simp add: A_def TR_def)
    show ?thesis
    proof (rule ccontr)
      assume "\<not> progressPercentage st \<le> 100"
      then have "101 \<le> int r" by (simp add: r_def)
      then have "int t * 101 \<le> int t * int r"
        by (intro mult_left_mono) simp_all
      then have b3: "101 * int t \<le> TR" by (simp add: TR_def mult.commute)
      have b4: "int c \<le> int t" using ct by simp
      have b5: "0 < int t" using False by simp
      from b1 b2 b3 b4 b5 show False by linarith
    qed
  qed
qed

lemma tie_rounds_down_example:
  "Math_round (js_times (js_divide 23 40) 100) = 57"
  by (simp add: js_eval)

section \<open>Enrolling twice\<close>

text \<open>
  Claim C7. When a signed-in student enrolls in a course for the first time, the call
  succeeds and the database gains exactly one row, the enrollment handed back to the
  page: of that student in that course, with \<open>progress_percentage = 0\<close> and no
  \<open>completed_at\<close>; nothing else in the database changes. Enrolling again is refused by \<^verbatim>\<open>UNIQUE(student_id, course_id)\<close> (a unique violation, the conflict the handler
  logs), the database is left as the first call made it, and it holds exactly one
  enrollment of that student in that course. The student's profile and the course exist,
  and \<open>id1\<close> is the fresh id the database generates.
\<close>

theorem handleEnroll_twice:
  assumes ids: "uuid_ok u" "uuid_ok (c_id c)"
    and fks: "list_ex (\<lambda>p. p_id p = u) (profiles d)" "list_ex (\<lambda>c'. c_id c' = c_id c) (courses d)"
    and new: "\<not> list_ex (\<lambda>e. e_student_id e = u \<and> e_course_id e = c_id c) (enrollments d)"
    and fresh: "\<not> list_ex (\<lambda>e. e_id e = id1) (enrollments d)"
  shows "\<exists>row d1.
           handleEnroll d (Some u) (Some c) id1 t1 = (d1, Enrolled row)
           \<and> d1 = d\<lparr>enrollments := enrollments d @ [row]\<rparr>
           \<and> e_id row = id1 \<and> e_student_id row = u \<and> e_course_id row = c_id c
           \<and> e_enrolled_at row = t1
           \<and> e_progress_percentage row = 0 \<and> e_completed_at row = None
           \<and> handleEnroll d1 (Some u) (Some c) id2 t2 = (d1, EnrollFailed UniqueViolation)
           \<and> length (filter (\<lambda>e. e_student_id e = u \<and> e_course_id e = c_id c) (enrollments d1)) = 1"
proof -
  define row where "row = \<lparr>e_id = id1, e_student_id = u, e_course_id = c_id c,
    e_enrolled_at = t1, e_completed_at = None, e_progress_percentage = 0\<rparr>"
  define d1 where "d1 = d\<lparr>enrollments := enrollments d @ [row]\<rparr>"
  have first: "insert_enrollment d (Some u) id1 t1 u (c_id c) = Inr (d1, row)"
    using ids fks new fresh
    by (simp add: insert_enrollment_def enrollments_insert_check_def row_def d1_def Let_def)
  have dup: "list_ex (\<lambda>e. e_student_id e = u \<and> e_course_id e = c_id c) (enrollments d1)"
    by (simp add: d1_def row_def list_ex_append_single)
  have second: "insert_enrollment d1 (Some u) id2 t2 u (c_id c) = Inl UniqueViolation"
    using ids dup by (simp add: insert_enrollment_def enrollments_insert_check_def Let_def)
  have none: "filter (\<lambda>e. e_student_id e = u \<and> e_course_id e = c_id c) (enrollments d) = []"
    using new by (simp add: list_ex_iff filter_empty_conv)
  have one: "length (filter (\<lambda>e. e_student_id e = u \<and> e_course_id e = c_id c) (enrollments d1)) = 1"
    by (simp add: d1_def none row_def)
  have once: "handleEnroll d (Some u) (Some c) id1 t1 = (d1, Enrolled row)"
    using first by (simp add: handleEnroll_def)
  have twice: "handleEnroll d1 (Some u) (Some c) id2 t2 = (d1, EnrollFailed UniqueViolation)"
    using second by (simp add: handleEnroll_def)
  have stored: "d1 = d\<lparr>enrollments := enrollments d @ [row]\<rparr>"
    by (simp add: d1_def)
  have fields: "e_id row = id1 \<and> e_student_id row = u \<and> e_course_id row = c_id c
      \<and> e_enrolled_at row = t1 \<and> e_progress_percentage row = 0 \<and> e_completed_at row = None"
    by (simp add: row_def)
  from once twice stored fields one show ?thesis
    by blast
qed

text \<open>The same on the sample catalogue: Alice enrolls in course 1 twice.\<close>

theorem handleEnroll_twice_witness:
  "\<exists>row d1.
     handleEnroll db_catalog (Some alice)
         (Some \<lparr>c_id = course1, c_instructor_id = bob, c_is_published = True\<rparr>) fresh1 20
       = (d1, Enrolled row)
     \<and> d1 = db_catalog\<lparr>enrollments := enrollments db_catalog @ [row]\<rparr>
     \<and> e_id row = fresh1 \<and> e_student_id row = alice
     \<and> e_course_id row = c_id \<lparr>c_id = course1, c_instructor_id = bob, c_is_published = True\<rparr>
     \<and> e_enrolled_at row = 20
     \<and> e_progress_percentage row = 0 \<and> e_completed_at row = None
     \<and> handleEnroll d1 (Some alice)
         (Some \<lparr>c_id = course1, c_instructor_id = bob, c_is_published = True\<rparr>) fresh2 21
       = (d1, EnrollFailed UniqueViolation)
     \<and> length (filter (\<lambda>e. e_student_id e = alice
            \<and> e_course_id e = c_id \<lparr>c_id = course1, c_instructor_id = bob, c_is_published = True\<rparr>)
          (enrollments d1)) = 1"
  by (rule handleEnroll_twice) code_simp+

section \<open>Completion is overwritten by every recomputation\<close>

text \<open>
  Claim C1, as the code has it. A recomputation overwrites \<open>completed_at\<close> of the
  enrollment it reaches (the row with the player's enrollment id that belongs to the
  actor): with the time of the recomputation when the percentage computed from the
  player's state is 100, and with null when it is below 100. A completed enrollment
  therefore loses its \<open>completed_at\<close> as soon as a recomputation yields less than 100,
  and gets a new one each time a recomputation yields 100. Every other enrollment keeps
  its value.
\<close>

theorem recompute_overwrites_completed_at:
  assumes "uuid_ok eid" and "progressPercentage st \<le> 100"
  shows "map e_completed_at (enrollments (updateEnrollmentProgress st d actor eid now)) =
           map (\<lambda>e. if e_id e = eid \<and> actor = Some (e_student_id e)
                     then (if progressPercentage st = 100 then Some now else None)
                     else e_completed_at e)
             (enrollments d)"
  using assms by (simp add: updateEnrollmentProgress_eq comp_def if_distrib cong: if_cong)

text \<open>
  Alice completed all four lessons of course 1 at time 50; then lesson 7 was added. The
  player she opens afterwards counts five lessons, of which four are completed.
\<close>

theorem recompute_overwrites_completed_at_witness:
  "map e_completed_at
     (enrollments
        (updateEnrollmentProgress (alice_player (add_lesson7 (db_enrolled 4 100 (Some 50))))
           (add_lesson7 (db_enrolled 4 100 (Some 50))) (Some alice) enr1 90)) =
   map (\<lambda>e. if e_id e = enr1 \<and> Some alice = Some (e_student_id e)
             then (if progressPercentage (alice_player (add_lesson7 (db_enrolled 4 100 (Some 50)))) = 100
                   then Some 90 else None)
             else e_completed_at e)
     (enrollments (add_lesson7 (db_enrolled 4 100 (Some 50))))"
  by (rule recompute_overwrites_completed_at) (simp_all add: sample_ids_ok sample_percentages)

text \<open>
  In that situation the recomputation yields 80 and Alice's enrollment, completed
  before, is no longer completed afterwards.
\<close>

theorem completion_revoked_counterexample:
  "map e_completed_at (enrollments (add_lesson7 (db_enrolled 4 100 (Some 50)))) = [Some 50]
   \<and> progressPercentage (alice_player (add_lesson7 (db_enrolled 4 100 (Some 50)))) = 80
   \<and> map e_completed_at
       (enrollments
          (updateEnrollmentProgress (alice_player (add_lesson7 (db_enrolled 4 100 (Some 50))))
             (add_lesson7 (db_enrolled 4 100 (Some 50))) (Some alice) enr1 90)) = [None]"
  by (simp add: updateEnrollmentProgress_eq sample_ids_ok sample_percentages
      add_lesson7_tables db_enrolled_tables)

section \<open>Certificates and completion\<close>

text \<open>
  Claim C2, as the code has it. For an enrollment that has no certificate yet, storing
  one succeeds exactly when the enrollment id is well formed and the actor is the
  student of that enrollment; \<open>completed_at\<close> is not consulted, so a certificate can
  be stored for an enrollment that is not completed. The dashboard, for its part, lists
  for certificates only the user's enrollments whose \<open>completed_at\<close> is set (its list
  is empty when it mounts).
\<close>

theorem certificate_creation_policy:
  assumes "\<not> list_ex (\<lambda>c. ct_enrollment_id c = eid) (certificates d)"
    and "\<not> list_ex (\<lambda>c. ct_id c = new_id) (certificates d)"
  shows "(\<not> isl (upsert_certificate d actor new_id now eid url)) =
           (uuid_ok eid
            \<and> list_ex (\<lambda>e. e_id e = eid \<and> actor = Some (e_student_id e)) (enrollments d))
         \<and> list_all (\<lambda>(e, c). e_student_id e = user \<and> e_completed_at e \<noteq> None)
             (loadCertificates [] d actor user)"
  using upsert_certificate_success_iff[OF assms] loadCertificates_completed by blast

text \<open>On the sample data: Alice, half way through course 1.\<close>

theorem certificate_creation_policy_witness:
  "(\<not> isl (upsert_certificate (db_enrolled 2 50 None) (Some alice) fresh1 70 enr1 ''data:image/png''))
     = (uuid_ok enr1
        \<and> list_ex (\<lambda>e. e_id e = enr1 \<and> Some alice = Some (e_student_id e))
            (enrollments (db_enrolled 2 50 None)))
   \<and> list_all (\<lambda>(e, c). e_student_id e = alice \<and> e_completed_at e \<noteq> None)
       (loadCertificates [] (db_enrolled 2 50 None) (Some alice) alice)"
  by (rule certificate_creation_policy) (simp_all add: db_enrolled_tables)

text \<open>
  Alice's enrollment has no \<open>completed_at\<close>, and the certificate is stored all the
  same.
\<close>

theorem certificate_without_completion_counterexample:
  "map e_completed_at (enrollments (db_enrolled 2 50 None)) = [None]
   \<and> handleGenerateCertificate (db_enrolled 2 50 None) (Some alice) fresh1 70 ''data:image/png'' enr1
       = ((db_enrolled 2 50 None)
            \<lparr>certificates := [\<lparr>ct_id = fresh1, ct_enrollment_id = enr1,
                               ct_certificate_url = Some ''data:image/png'', ct_issued_at = 70\<rparr>]\<rparr>,
          None)"
  by code_simp

section \<open>Reading lessons of a draft course\<close>

text \<open>
  Claim C3, as the code has it. For a student who is not the instructor of an
  unpublished course and has no enrollment in it, the read policies of \<^verbatim>\<open>lessons\<close> let
  no lesson under that course through, and reading such a lesson by its id gives the
  empty answer, whether the lesson is flagged \<open>is_preview\<close> or not: the policies
  never look at the flag. The lesson, its section and
  the course are rows of the database, whose primary keys are unique.
\<close>

theorem unpublished_lessons_hidden:
  assumes keys: "distinct (map c_id (courses d))" "distinct (map s_id (course_sections d))"
      "distinct (map l_id (lessons d))"
    and lesson: "l \<in> set (lessons d)" "uuid_ok (l_id l)"
    and sect: "cs \<in> set (course_sections d)" "s_id cs = l_section_id l"
    and course: "c \<in> set (courses d)" "c_id c = s_course_id cs"
    and draft: "\<not> c_is_published c" "c_instructor_id c \<noteq> u"
    and unenrolled: "\<not> list_ex (\<lambda>e. e_course_id e = c_id c \<and> e_student_id e = u) (enrollments d)"
  shows "\<not> lessons_select d (Some u) l \<and> select_lesson d (Some u) (l_id l) = Inr []"
proof -
  have the_course: "c' = c" if "c' \<in> set (courses d)" "c_id c' = c_id c" for c'
    using that keys(1) course(1) by (metis distinct_map inj_on_eq_iff)
  have the_section: "cs' = cs" if "cs' \<in> set (course_sections d)" "s_id cs' = s_id cs" for cs'
    using that keys(2) sect(1) by (metis distinct_map inj_on_eq_iff)
  have the_lesson: "l' = l" if "l' \<in> set (lessons d)" "l_id l' = l_id l" for l'
    using that keys(3) lesson(1) by (metis distinct_map inj_on_eq_iff)
  have hidden_course: "c \<notin> set (visible_courses d (Some u))"
    using draft by (simp add: visible_courses_def courses_select_def)
  have no_pair: "\<not> (s_id cs' = l_section_id l)"
    if "(cs', c') \<in> set (sections_join_courses d (Some u))" for cs' c'
  proof
    assume same: "s_id cs' = l_section_id l"
    from that have cs': "cs' \<in> set (course_sections d)"
      and c': "c' \<in> set (visible_courses d (Some u))" "c_id c' = s_course_id cs'"
      by (auto simp: sections_join_courses_def visible_sections_def)
    from cs' same sect(2) have "cs' = cs" by (simp add: the_section)
    with c' course(2) have "c' \<in> set (courses d)" "c_id c' = c_id c"
      by (auto simp: visible_courses_def)
    then have "c' = c" by (rule the_course)
    with c'(1) hidden_course show False by simp
  qed
  have hidden: "\<not> lessons_select d (Some u) l"
    using no_pair by (auto simp: lessons_select_def list_ex_iff)
  have "filter (\<lambda>l'. l_id l' = l_id l) (visible_lessons d (Some u)) = []"
    using hidden the_lesson by (auto simp: filter_empty_conv visible_lessons_def)
  with lesson(2) hidden show ?thesis
    by (simp add: select_lesson_def)
qed

text \<open>On the sample catalogue: Alice asks for lesson 5, the preview lesson of the draft course 2.\<close>

theorem unpublished_lessons_hidden_witness:
  "\<not> lessons_select db_catalog (Some alice)
       \<lparr>l_id = lesson5, l_section_id = secC, l_order_index = 1, l_is_preview = True\<rparr>
   \<and> select_lesson db_catalog (Some alice)
       (l_id \<lparr>l_id = lesson5, l_section_id = secC, l_order_index = 1, l_is_preview = True\<rparr>)
     = Inr []"
  by (rule unpublished_lessons_hidden[where
        cs = "\<lparr>s_id = secC, s_course_id = course2, s_order_index = 1\<rparr>"
        and c = "\<lparr>c_id = course2, c_instructor_id = bob, c_is_published = False\<rparr>"])
    code_simp+

text \<open>
  Lesson 5 is flagged as a preview, its course is a draft of Bob's, nobody is enrolled,
  and Alice's read of lesson 5 comes back empty.
\<close>

theorem preview_lesson_hidden_counterexample:
  "filter (\<lambda>l. l_id l = lesson5) (lessons db_catalog)
     = [\<lparr>l_id = lesson5, l_section_id = secC, l_order_index = 1, l_is_preview = True\<rparr>]
   \<and> filter (\<lambda>s. s_id s = secC) (course_sections db_catalog)
     = [\<lparr>s_id = secC, s_course_id = course2, s_order_index = 1\<rparr>]
   \<and> filter (\<lambda>c. c_id c = course2) (courses db_catalog)
     = [\<lparr>c_id = course2, c_instructor_id = bob, c_is_published = False\<rparr>]
   \<and> enrollments db_catalog = []
   \<and> \<not> lessons_select db_catalog (Some alice)
         \<lparr>l_id = lesson5, l_section_id = secC, l_order_index = 1, l_is_preview = True\<rparr>
   \<and> select_lesson db_catalog (Some alice) lesson5 = Inr []"
  by code_simp

section \<open>The completed flag of a lesson\<close>




section \<open>What the stored percentage is\<close>

text \<open>
  Claim C5, as the code has it. A recomputation takes both counts from the player's
  state: the lessons of the sections it loaded when it mounted, and the completed rows
  of its progress map. With no lessons it yields 0; otherwise it yields an integer
  nearest to \<open>100 * completed / total\<close> of these two counts, and that number is what
  the enrollment of the actor receives as \<open>progress_percentage\<close>. The counts are at
  most a million million, and the completed rows are not more than the lessons.
\<close>

theorem percentage_is_nearest_integer:
  assumes "uuid_ok eid"
    and "completedLessons st \<le> totalLessons st" and "totalLessons st < 2 ^ 40"
  shows "(if totalLessons st = 0 then progressPercentage st = 0
          else 2 * \<bar>int (totalLessons st) * int (progressPercentage st)
                     - 100 * int (completedLessons st)\<bar> \<le> int (totalLessons st))
         \<and> map e_progress_percentage (enrollments (updateEnrollmentProgress st d actor eid now)) =
             map (\<lambda>e. if e_id e = eid \<and> actor = Some (e_student_id e)
                       then int (progressPercentage st) else e_progress_percentage e)
               (enrollments d)"
  using progressPercentage_nearest[OF assms(3,2)] assms(1)
  by (simp add: updateEnrollmentProgress_eq comp_def if_distrib cong: if_cong)

text \<open>
  Alice has completed two lessons of course 1 and opens the player after lesson 7 was
  added: two of five lessons, and 40 is stored.
\<close>

theorem percentage_is_nearest_integer_witness:
  "2 * \<bar>int (totalLessons (alice_player (add_lesson7 (db_enrolled 2 50 None))))
          * int (progressPercentage (alice_player (add_lesson7 (db_enrolled 2 50 None))))
        - 100 * int (completedLessons (alice_player (add_lesson7 (db_enrolled 2 50 None))))\<bar>
     \<le> int (totalLessons (alice_player (add_lesson7 (db_enrolled 2 50 None))))
   \<and> map e_progress_percentage
       (enrollments
          (updateEnrollmentProgress (alice_player (add_lesson7 (db_enrolled 2 50 None)))
             (add_lesson7 (db_enrolled 2 50 None)) (Some alice) enr1 90)) = [40]"
proof -
  have "completedLessons (alice_player (add_lesson7 (db_enrolled 2 50 None)))
          \<le> totalLessons (alice_player (add_lesson7 (db_enrolled 2 50 None)))"
    and "totalLessons (alice_player (add_lesson7 (db_enrolled 2 50 None))) < 2 ^ 40"
    by (simp_all add: player_two_of_five_counts)
  from percentage_is_nearest_integer[OF sample_ids_ok(3) this,
      of "add_lesson7 (db_enrolled 2 50 None)" "Some alice" 90]
  show ?thesis
    by (simp add: player_two_of_five_counts sample_percentages add_lesson7_tables db_enrolled_tables)
qed

text \<open>
  The database is not what is counted. Alice's player holds four lessons and two
  completed rows. When she completes lesson 3 through it, the database holds three
  completed rows of four lessons, and the percentage stored by that very update is 50:
  the recomputation reads the progress map of the render the handler belongs to, which
  does not hold the new row yet. And when lesson 7 is added while her player is open, a
  further update through that player still stores 50, where a player mounted afresh
  would compute 40.
\<close>

theorem stale_percentage_counterexample:
  "totalLessons (alice_player (db_enrolled 2 50 None)) = 4
   \<and> map lp_is_completed
       (lesson_progress
          (fst (handleProgressUpdate (alice_player (db_enrolled 2 50 None)) (db_enrolled 2 50 None)
                  (Some alice) enr1 prog3 60 61 lesson3 600 True))) = [True, True, True]
   \<and> map e_progress_percentage
       (enrollments
          (fst (handleProgressUpdate (alice_player (db_enrolled 2 50 None)) (db_enrolled 2 50 None)
                  (Some alice) enr1 prog3 60 61 lesson3 600 True))) = [50]
   \<and> progressPercentage (alice_player (add_lesson7 (db_enrolled 2 50 None))) = 40
   \<and> map e_progress_percentage
       (enrollments
          (fst (handleProgressUpdate (alice_player (db_enrolled 2 50 None))
                  (add_lesson7 (db_enrolled 2 50 None))
                  (Some alice) enr1 fresh1 70 71 lesson1 600 True))) = [50]"
proof -
  have third: "\<not> isl (upsert_progress (db_enrolled 2 50 None) (Some alice) prog3 60 enr1 lesson3 600 True)"
    by code_simp
  have again: "\<not> isl (upsert_progress (add_lesson7 (db_enrolled 2 50 None)) (Some alice) fresh1 70
                         enr1 lesson1 600 True)"
    by code_simp
  have rows: "map lp_is_completed
       (lesson_progress
          (fst (handleProgressUpdate (alice_player (db_enrolled 2 50 None)) (db_enrolled 2 50 None)
                  (Some alice) enr1 prog3 60 61 lesson3 600 True))) = [True, True, True]"
    unfolding handleProgressUpdate_rows[OF third] by code_simp
  have bound: "progressPercentage (alice_player (db_enrolled 2 50 None)) \<le> 100"
    by (simp add: sample_percentages)
  show ?thesis
    using rows
    by (simp add: handleProgressUpdate_enrollments[OF third bound]
        handleProgressUpdate_enrollments[OF again bound]
        sample_percentages player_two_counts add_lesson7_tables db_enrolled_tables)
qed

section \<open>Lessons of other courses\<close>

text \<open>
  Claim C6, as the code has it. The upsert of \<^verbatim>\<open>handleProgressUpdate\<close> checks nothing
  about the course of the lesson. With a fresh row id at hand, it succeeds exactly when
  both ids are well formed, the seconds fit an \<^verbatim>\<open>integer\<close>, the actor is the student of
  the enrollment, and the lesson exists in some course (or the pair has a row already).
  When it fails, the handler leaves the database and the player as they were.
\<close>

theorem progress_upsert_ignores_course:
  assumes "\<not> list_ex (\<lambda>p. lp_id p = new_id) (lesson_progress d)"
  shows "(\<not> isl (upsert_progress d actor new_id t1 eid lid w c)) =
           (uuid_ok eid \<and> uuid_ok lid \<and> int4_ok w
            \<and> list_ex (\<lambda>e. e_id e = eid \<and> actor = Some (e_student_id e)) (enrollments d)
            \<and> (list_ex (\<lambda>p. lp_enrollment_id p = eid \<and> lp_lesson_id p = lid) (lesson_progress d)
               \<or> list_ex (\<lambda>l. l_id l = lid) (lessons d)))
         \<and> (isl (upsert_progress d actor new_id t1 eid lid w c)
              \<longrightarrow> handleProgressUpdate st d actor eid new_id t1 t2 lid w c = (d, st))"
  using upsert_progress_success_iff[OF assms] handleProgressUpdate_Inl by blast

text \<open>
  On the sample data: Alice, enrolled in course 1, reports progress on lesson 6 of
  course 2, which goes through, and on lesson 7, which does not exist yet and changes
  nothing.
\<close>

theorem progress_upsert_ignores_course_witness:
  "\<not> isl (upsert_progress (db_enrolled 0 0 None) (Some alice) fresh1 60 enr1 lesson6 30 False)
   \<and> handleProgressUpdate (alice_player (db_enrolled 0 0 None)) (db_enrolled 0 0 None)
        (Some alice) enr1 fresh1 60 61 lesson7 30 False
       = (db_enrolled 0 0 None, alice_player (db_enrolled 0 0 None))"
proof -
  have fresh: "\<not> list_ex (\<lambda>p. lp_id p = fresh1) (lesson_progress (db_enrolled 0 0 None))"
    by code_simp
  have present: "uuid_ok enr1 \<and> uuid_ok lesson6 \<and> int4_ok 30
      \<and> list_ex (\<lambda>e. e_id e = enr1 \<and> Some alice = Some (e_student_id e)) (enrollments (db_enrolled 0 0 None))
      \<and> (list_ex (\<lambda>p. lp_enrollment_id p = enr1 \<and> lp_lesson_id p = lesson6)
            (lesson_progress (db_enrolled 0 0 None))
          \<or> list_ex (\<lambda>l. l_id l = lesson6) (lessons (db_enrolled 0 0 None)))"
    by code_simp
  have absent: "isl (upsert_progress (db_enrolled 0 0 None) (Some alice) fresh1 60 enr1 lesson7 30 False)"
    by code_simp
  show ?thesis
    using progress_upsert_ignores_course[OF fresh, where actor = "Some alice" and ?t1.0 = 60
          and eid = enr1 and lid = lesson6 and w = 30 and c = False]
      progress_upsert_ignores_course[OF fresh, where actor = "Some alice" and ?t1.0 = 60
          and eid = enr1 and lid = lesson7 and w = 30 and c = False
          and st = "alice_player (db_enrolled 0 0 None)" and ?t2.0 = 61]
      present absent
    by blast
qed

text \<open>
  Alice's enrollment is in course 1, lesson 6 is not among the lessons her player loaded
  for course 1, and the call stores a progress row for it.
\<close>

theorem foreign_lesson_counterexample:
  "map e_course_id (enrollments (db_enrolled 0 0 None)) = [course1]
   \<and> lesson6 \<notin> set (map l_id (concat (map sec_lessons (sections (alice_player (db_enrolled 0 0 None))))))
   \<and> lesson_progress (db_enrolled 0 0 None) = []
   \<and> map (\<lambda>p. (lp_enrollment_id p, lp_lesson_id p))
       (lesson_progress
          (fst (handleProgressUpdate (alice_player (db_enrolled 0 0 None)) (db_enrolled 0 0 None)
                  (Some alice) enr1 fresh1 60 61 lesson6 30 False))) = [(enr1, lesson6)]"
proof -
  have ok: "\<not> isl (upsert_progress (db_enrolled 0 0 None) (Some alice) fresh1 60 enr1 lesson6 30 False)"
    by code_simp
  show ?thesis
    unfolding handleProgressUpdate_rows[OF ok] by code_simp
qed

section \<open>Certificates are stored once\<close>

text \<open>
  Claim C8, evaluated. Alice has completed course 1. Her first call of
  \<^verbatim>\<open>handleGenerateCertificate\<close> stores the certificate. Her second call takes the update
  path of the upsert, for which \<^verbatim>\<open>certificates\<close> has no policy: the statement is rejected,
  the handler logs the error, and the stored row keeps the first artifact.
\<close>

theorem certificate_regeneration_rejected:
  "handleGenerateCertificate (db_enrolled 4 100 (Some 50)) (Some alice) fresh1 70 ''data:first'' enr1
     = ((db_enrolled 4 100 (Some 50))
          \<lparr>certificates := [\<lparr>ct_id = fresh1, ct_enrollment_id = enr1,
                             ct_certificate_url = Some ''data:first'', ct_issued_at = 70\<rparr>]\<rparr>,
        None)
   \<and> handleGenerateCertificate
        ((db_enrolled 4 100 (Some 50))
           \<lparr>certificates := [\<lparr>ct_id = fresh1, ct_enrollment_id = enr1,
                              ct_certificate_url = Some ''data:first'', ct_issued_at = 70\<rparr>]\<rparr>)
        (Some alice) fresh2 80 ''data:second'' enr1
     = ((db_enrolled 4 100 (Some 50))
          \<lparr>certificates := [\<lparr>ct_id = fresh1, ct_enrollment_id = enr1,
                             ct_certificate_url = Some ''data:first'', ct_issued_at = 70\<rparr>]\<rparr>,
        Some RlsViolation)"
  by code_simp

section \<open>Who may write the derived fields\<close>

text \<open>
  Claim C9, as the code has it. The update policy of \<^verbatim>\<open>enrollments\<close> only asks that the
  row belongs to the actor. The student of an enrollment can therefore write any
  \<open>progress_percentage\<close> from 0 to 100 and any \<open>completed_at\<close> into it directly,
  without any lesson progress being consulted; rows of other students are left as they
  are.
\<close>

theorem enrollment_fields_writable_by_owner:
  assumes "uuid_ok eid" and "0 \<le> percentage" and "percentage \<le> 100"
  shows "update_enrollment d actor eid percentage completedAt =
           Inr (d\<lparr>enrollments :=
                   map (\<lambda>e. if e_id e = eid \<and> actor = Some (e_student_id e)
                             then e\<lparr>e_progress_percentage := percentage, e_completed_at := completedAt\<rparr>
                             else e)
                     (enrollments d)\<rparr>)"
  using assms by (rule update_enrollment_eq)

text \<open>On the sample data: Alice, with no lesson progress at all.\<close>

theorem enrollment_fields_writable_by_owner_witness:
  "update_enrollment (db_enrolled 0 0 None) (Some alice) enr1 100 (Some 7) =
     Inr ((db_enrolled 0 0 None)
            \<lparr>enrollments :=
               map (\<lambda>e. if e_id e = enr1 \<and> Some alice = Some (e_student_id e)
                         then e\<lparr>e_progress_percentage := 100, e_completed_at := Some 7\<rparr>
                         else e)
                 (enrollments (db_enrolled 0 0 None))\<rparr>)"
  by (rule enrollment_fields_writable_by_owner) (simp_all add: sample_ids_ok)

text \<open>She marks her enrollment as complete at time 7 with a single update.\<close>

theorem direct_write_counterexample:
  "lesson_progress (db_enrolled 0 0 None) = []
   \<and> update_enrollment (db_enrolled 0 0 None) (Some alice) enr1 100 (Some 7)
       = Inr (db_enrolled 0 100 (Some 7))"
  by code_simp

section \<open>The player as the application mounts it\<close>




end
